theory Spec2Isabelle
  imports Complex_Main
begin

section \<open>Data model of the relay bot (main.py)\<close>

text \<open>
  Python \<open>str\<close> values are modelled as byte strings holding the UTF-8 encoding of
  the text. No operation of the program inspects the characters of a string, so the
  encoding only fixes how the literals of the source are written down here.
\<close>

type_synonym str = string

definition utf8 :: "nat list \<Rightarrow> str" where
  "utf8 bs = map char_of bs"

text \<open>
  One turn of dialogue: the dictionary \<open>{"role": ..., "content": ...}\<close> built at
  lines 63, 70--73 and 104. The content is a string, or \<open>None\<close> where line 104
  stores a provider message that carried none.
\<close>

record entry =
  role :: str
  content :: "str option"

text \<open>
  \<open>deque(maxlen=10)\<close> (line 47): the contents of a bounded deque, oldest entry first.
  \<open>append\<close> puts the new item at the right end and, when the deque then holds more
  than \<open>maxlen\<close> items, discards one item from the left end. \<open>clear\<close> removes
  every item.
\<close>

type_synonym history = "entry list"

definition maxlen :: nat where
  "maxlen = 10"

definition deque_append :: "'a list \<Rightarrow> 'a \<Rightarrow> 'a list" where
  "deque_append d x = (let d' = d @ [x] in if length d' > maxlen then tl d' else d')"

definition deque_clear :: "'a list \<Rightarrow> 'a list" where
  "deque_clear d = []"

text \<open>
  \<open>user_messages\<close> (line 47) is a \<open>defaultdict\<close> from user ids to deques.
  Subscripting it with a missing key stores a fresh empty deque under that key and
  returns it; the membership test \<open>in\<close> never creates an entry.
\<close>

type_synonym store = "int \<rightharpoonup> history"

definition getitem :: "store \<Rightarrow> int \<Rightarrow> history \<times> store" where
  "getitem um user_id =
     (case um user_id of
        Some d \<Rightarrow> (d, um)
      | None \<Rightarrow> ([], um(user_id \<mapsto> [])))"

definition contains :: "store \<Rightarrow> int \<Rightarrow> bool" where
  "contains um user_id = (case um user_id of Some d \<Rightarrow> True | None \<Rightarrow> False)"

text \<open>The statement \<open>user_messages[user_id].append(e)\<close> of lines 63 and 104.\<close>

definition append_entry :: "int \<Rightarrow> entry \<Rightarrow> store \<Rightarrow> store" where
  "append_entry user_id e um =
     (case getitem um user_id of (d, um') \<Rightarrow> um'(user_id \<mapsto> deque_append d e))"

section \<open>The completion provider and the chat transport\<close>

text \<open>
  The request passed to \<open>client.chat.completions.create\<close> (lines 94--98) and the
  part of its result that line 101 reads: \<open>response.choices[0].message.content\<close>.
  The call hands back a response or raises. The content of a message is a string or
  \<open>None\<close> (the client library declares it optional), and line 101 takes it as it
  is.
\<close>

record request =
  model :: str
  messages :: "entry list"
  temperature :: rat

record completion_message =
  msg_content :: "str option"

record choice =
  message :: completion_message

record chat_completion =
  choices :: "choice list"

text \<open>
  What can be raised inside \<open>get_ai_response\<close>: \<open>ProviderError m\<close> is an instance
  of \<open>Exception\<close> raised by the provider call, with \<open>m\<close> its \<open>str\<close>;
  \<open>IndexError\<close> is raised by \<open>choices[0]\<close> on an empty list;
  \<open>CancelledError\<close> is \<open>asyncio.CancelledError\<close>, raised at the \<open>await\<close> when
  the task is cancelled. The last one derives from \<open>BaseException\<close> only, so
  \<open>except Exception\<close> does not catch it.
\<close>

datatype exn = ProviderError str | IndexError | CancelledError

definition is_Exception :: "exn \<Rightarrow> bool" where
  "is_Exception e = (case e of CancelledError \<Rightarrow> False | _ \<Rightarrow> True)"

definition str_of_exn :: "exn \<Rightarrow> str" where
  "str_of_exn e =
     (case e of
        ProviderError m \<Rightarrow> m
      | IndexError \<Rightarrow> ''list index out of range''
      | CancelledError \<Rightarrow> [])"

datatype outcome = Raises exn | Returns chat_completion

type_synonym client = "request \<Rightarrow> outcome"

text \<open>
  An inbound Telegram message as the handlers read it: \<open>message.from_user.id\<close>,
  \<open>message.chat.id\<close> and \<open>message.text\<close>, which is \<open>None\<close> for a message
  without text.
\<close>

record Message =
  from_user_id :: int
  chat_id :: int
  msg_text :: "str option"

text \<open>
  What the bot sends to the transport: \<open>message.answer(t)\<close> is a text reply into
  the chat of the message, \<open>bot.send_chat_action\<close> a presence indicator.
\<close>

datatype outbound = Answer int str | ChatAction int str

text \<open>
  What can leave \<open>handle_text_message\<close>, which catches nothing: an exception that
  left \<open>get_ai_response\<close>, or the validation error \<open>message.answer\<close> raises when
  its text is \<open>None\<close>.
\<close>

datatype handler_failure = Uncaught exn | ValidationError

text \<open>
  The state the program acts on: the conversation store, and the traces of its effects
  on the outside (provider requests issued, lines printed, messages handed to the
  transport), each in order of occurrence.
\<close>

record world =
  user_messages :: store
  requests :: "request list"
  stdout :: "str list"
  outbox :: "outbound list"

definition initial_world :: world where
  "initial_world = \<lparr>user_messages = Map.empty, requests = [], stdout = [], outbox = []\<rparr>"

section \<open>Configuration and the literals of the source\<close>

definition getenv :: "(str \<rightharpoonup> str) \<Rightarrow> str \<Rightarrow> str \<Rightarrow> str" where
  "getenv environ key dflt = (case environ key of Some v \<Rightarrow> v | None \<Rightarrow> dflt)"

definition DEFAULT_MODEL :: "(str \<rightharpoonup> str) \<Rightarrow> str" where
  "DEFAULT_MODEL environ = getenv environ ''OPENROUTER_MODEL'' ''google/gemini-pro-1.5''"

text \<open>Line 72, in English: "You are a helpful assistant. Answer in Russian."\<close>

definition system_content :: str where
  "system_content = utf8
     [208, 162, 209, 139, 32, 208, 191, 208, 190, 208, 187, 208, 181, 208, 183, 208, 189, 209,
       139, 208, 185, 32, 208, 176, 209, 129, 209, 129, 208, 184, 209, 129, 209, 130, 208, 181,
       208, 189, 209, 130, 46, 32, 208, 158, 209, 130, 208, 178, 208, 181, 209, 135, 208, 176,
       208, 185, 32, 208, 189, 208, 176, 32, 209, 128, 209, 131, 209, 129, 209, 129, 208, 186,
       208, 190, 208, 188, 32, 209, 143, 208, 183, 209, 139, 208, 186, 208, 181, 46]"

text \<open>Line 109, the prefix of the logged line: "Error while contacting the AI: ".\<close>

definition error_prefix :: str where
  "error_prefix = utf8
     [208, 158, 209, 136, 208, 184, 208, 177, 208, 186, 208, 176, 32, 208, 191, 209, 128, 208,
       184, 32, 208, 190, 208, 177, 209, 128, 208, 176, 209, 137, 208, 181, 208, 189, 208, 184,
       208, 184, 32, 208, 186, 32, 208, 152, 208, 152, 58, 32]"

text \<open>
  Line 111: "Sorry, an error occurred while processing your request. Try again later."
\<close>

definition apology_text :: str where
  "apology_text = utf8
     [208, 152, 208, 183, 208, 178, 208, 184, 208, 189, 208, 184, 209, 130, 208, 181, 44, 32,
       208, 191, 209, 128, 208, 190, 208, 184, 208, 183, 208, 190, 209, 136, 208, 187, 208, 176,
       32, 208, 190, 209, 136, 208, 184, 208, 177, 208, 186, 208, 176, 32, 208, 191, 209, 128,
       208, 184, 32, 208, 190, 208, 177, 209, 128, 208, 176, 208, 177, 208, 190, 209, 130, 208,
       186, 208, 181, 32, 208, 178, 208, 176, 209, 136, 208, 181, 208, 179, 208, 190, 32, 208,
       183, 208, 176, 208, 191, 209, 128, 208, 190, 209, 129, 208, 176, 46, 32, 208, 159, 208,
       190, 208, 191, 209, 128, 208, 190, 208, 177, 209, 131, 208, 185, 209, 130, 208, 181, 32,
       208, 191, 208, 190, 208, 183, 208, 182, 208, 181, 46]"

text \<open>Line 160: "Please send a text message."\<close>

definition text_required_prompt :: str where
  "text_required_prompt = utf8
     [208, 159, 208, 190, 208, 182, 208, 176, 208, 187, 209, 131, 208, 185, 209, 129, 209, 130,
       208, 176, 44, 32, 208, 190, 209, 130, 208, 191, 209, 128, 208, 176, 208, 178, 209, 140,
       209, 130, 208, 181, 32, 209, 130, 208, 181, 208, 186, 209, 129, 209, 130, 208, 190, 208,
       178, 208, 190, 208, 181, 32, 209, 129, 208, 190, 208, 190, 208, 177, 209, 137, 208, 181,
       208, 189, 208, 184, 208, 181, 46]"

text \<open>Lines 126--130, the greeting sent by the start command.\<close>

definition welcome_text :: str where
  "welcome_text = utf8
     [240, 159, 145, 139, 32, 208, 159, 209, 128, 208, 184, 208, 178, 208, 181, 209, 130, 33,
       32, 208, 175, 32, 208, 177, 208, 190, 209, 130, 32, 209, 129, 32, 208, 184, 208, 189, 209,
       130, 208, 181, 208, 179, 209, 128, 208, 176, 209, 134, 208, 184, 208, 181, 208, 185, 32,
       208, 152, 208, 152, 46, 10, 10, 208, 159, 209, 128, 208, 190, 209, 129, 209, 130, 208,
       190, 32, 208, 190, 209, 130, 208, 191, 209, 128, 208, 176, 208, 178, 209, 140, 32, 208,
       188, 208, 189, 208, 181, 32, 209, 130, 208, 181, 208, 186, 209, 129, 209, 130, 208, 190,
       208, 178, 208, 190, 208, 181, 32, 209, 129, 208, 190, 208, 190, 208, 177, 209, 137, 208,
       181, 208, 189, 208, 184, 208, 181, 44, 32, 208, 184, 32, 209, 143, 32, 208, 190, 209, 130,
       208, 178, 208, 181, 209, 135, 209, 131, 32, 209, 129, 32, 208, 191, 208, 190, 208, 188,
       208, 190, 209, 137, 209, 140, 209, 142, 32, 208, 184, 209, 129, 208, 186, 209, 131, 209,
       129, 209, 129, 209, 130, 208, 178, 208, 181, 208, 189, 208, 189, 208, 190, 208, 179, 208,
       190, 32, 208, 184, 208, 189, 209, 130, 208, 181, 208, 187, 208, 187, 208, 181, 208, 186,
       209, 130, 208, 176, 46, 10, 10, 208, 152, 209, 129, 208, 191, 208, 190, 208, 187, 209,
       140, 208, 183, 209, 131, 208, 185, 32, 47, 115, 116, 97, 114, 116, 32, 208, 180, 208, 187,
       209, 143, 32, 208, 189, 208, 176, 209, 135, 208, 176, 208, 187, 208, 176, 32, 208, 189,
       208, 190, 208, 178, 208, 190, 208, 179, 208, 190, 32, 208, 180, 208, 184, 208, 176, 208,
       187, 208, 190, 208, 179, 208, 176, 32, 40, 208, 190, 209, 135, 208, 184, 209, 129, 209,
       130, 208, 186, 208, 184, 32, 208, 184, 209, 129, 209, 130, 208, 190, 209, 128, 208, 184,
       208, 184, 41, 46]"

text \<open>Lines 141--147, the help text.\<close>

definition help_text :: str where
  "help_text = utf8
     [240, 159, 147, 150, 32, 208, 161, 208, 191, 209, 128, 208, 176, 208, 178, 208, 186, 208,
       176, 32, 208, 191, 208, 190, 32, 208, 184, 209, 129, 208, 191, 208, 190, 208, 187, 209,
       140, 208, 183, 208, 190, 208, 178, 208, 176, 208, 189, 208, 184, 209, 142, 32, 208, 177,
       208, 190, 209, 130, 208, 176, 58, 10, 10, 47, 115, 116, 97, 114, 116, 32, 45, 32, 208,
       157, 208, 176, 209, 135, 208, 176, 209, 130, 209, 140, 32, 208, 189, 208, 190, 208, 178,
       209, 139, 208, 185, 32, 208, 180, 208, 184, 208, 176, 208, 187, 208, 190, 208, 179, 32,
       40, 208, 190, 209, 135, 208, 184, 209, 129, 209, 130, 208, 184, 209, 130, 209, 140, 32,
       208, 184, 209, 129, 209, 130, 208, 190, 209, 128, 208, 184, 209, 142, 41, 10, 47, 104,
       101, 108, 112, 32, 45, 32, 208, 159, 208, 190, 208, 186, 208, 176, 208, 183, 208, 176,
       209, 130, 209, 140, 32, 209, 141, 209, 130, 209, 131, 32, 209, 129, 208, 191, 209, 128,
       208, 176, 208, 178, 208, 186, 209, 131, 10, 10, 208, 159, 209, 128, 208, 190, 209, 129,
       209, 130, 208, 190, 32, 208, 190, 209, 130, 208, 191, 209, 128, 208, 176, 208, 178, 209,
       140, 32, 209, 130, 208, 181, 208, 186, 209, 129, 209, 130, 208, 190, 208, 178, 208, 190,
       208, 181, 32, 209, 129, 208, 190, 208, 190, 208, 177, 209, 137, 208, 181, 208, 189, 208,
       184, 208, 181, 44, 32, 208, 184, 32, 209, 143, 32, 208, 190, 209, 130, 208, 178, 208, 181,
       209, 135, 209, 131, 32, 209, 129, 32, 208, 191, 208, 190, 208, 188, 208, 190, 209, 137,
       209, 140, 209, 142, 32, 208, 152, 208, 152, 46, 10, 208, 145, 208, 190, 209, 130, 32, 208,
       191, 208, 190, 208, 188, 208, 189, 208, 184, 209, 130, 32, 208, 191, 208, 190, 209, 129,
       208, 187, 208, 181, 208, 180, 208, 189, 208, 184, 208, 181, 32, 49, 48, 32, 209, 129, 208,
       190, 208, 190, 208, 177, 209, 137, 208, 181, 208, 189, 208, 184, 208, 185, 32, 208, 178,
       32, 208, 189, 208, 176, 209, 136, 208, 181, 208, 188, 32, 208, 180, 208, 184, 208, 176,
       208, 187, 208, 190, 208, 179, 208, 181, 46]"

section \<open>Request assembly and the reply orchestrator\<close>

definition system_message :: entry where
  "system_message = \<lparr>role = ''system'', content = Some system_content\<rparr>"

text \<open>
  \<open>format_messages_for_api\<close> (lines 50--75): appends the user entry to the user's
  deque, copies the deque into a list, and returns the system entry followed by that
  list. Both subscripts of \<open>user_messages\<close> go through \<open>getitem\<close>.
\<close>

definition format_messages_for_api :: "int \<Rightarrow> str \<Rightarrow> store \<Rightarrow> entry list \<times> store" where
  "format_messages_for_api user_id new_message um =
     (let um1 = append_entry user_id \<lparr>role = ''user'', content = Some new_message\<rparr> um
      in case getitem um1 user_id of
           (d, um2) \<Rightarrow> ([system_message] @ d, um2))"

text \<open>
  \<open>get_ai_response\<close> is a coroutine with one suspension point, the \<open>await\<close> of
  line 94. The event loop is single-threaded: the code before the \<open>await\<close> runs
  without interruption, and so does the code after it, but while the coroutine waits
  for the provider the loop runs whatever other handlers are ready, and they act on the
  same store.

  \<open>before_await\<close> is the part of the \<open>try\<close> body up to the suspension (lines
  90--98): it assembles the messages and issues the request. \<open>after_await\<close> is the
  part from the resumption on (lines 94--106), given what the call came back with; it
  ends in a value or in an exception, and the changes made before an exception stay.
  \<open>try_body\<close> is the whole body: \<open>during\<close> is what the rest of the program does
  to the world while this call is suspended.
\<close>

definition before_await :: "(str \<rightharpoonup> str) \<Rightarrow> int \<Rightarrow> str \<Rightarrow> world \<Rightarrow> request \<times> world" where
  "before_await environ user_id user_message w =
     (case format_messages_for_api user_id user_message (user_messages w) of
        (msgs, um1) \<Rightarrow>
          (let req = \<lparr>model = DEFAULT_MODEL environ, messages = msgs, temperature = 0.7\<rparr>
           in (req, w\<lparr>user_messages := um1, requests := requests w @ [req]\<rparr>)))"

definition after_await :: "int \<Rightarrow> outcome \<Rightarrow> world \<Rightarrow> (exn + str option) \<times> world" where
  "after_await user_id result w =
     (case result of
        Raises e \<Rightarrow> (Inl e, w)
      | Returns response \<Rightarrow>
          (case choices response of
             [] \<Rightarrow> (Inl IndexError, w)
           | c # cs \<Rightarrow>
               (let ai_response = msg_content (message c)
                in (Inr ai_response,
                    w\<lparr>user_messages :=
                        append_entry user_id
                          \<lparr>role = ''assistant'', content = ai_response\<rparr>
                          (user_messages w)\<rparr>))))"

definition try_body :: "(str \<rightharpoonup> str) \<Rightarrow> client \<Rightarrow> (world \<Rightarrow> world) \<Rightarrow> int \<Rightarrow> str \<Rightarrow> world \<Rightarrow> (exn + str option) \<times> world" where
  "try_body environ create during user_id user_message w =
     (case before_await environ user_id user_message w of
        (req, w1) \<Rightarrow> after_await user_id (create req) (during w1))"

text \<open>
  The handler of lines 108--111: an instance of \<open>Exception\<close> is caught, the error
  line is printed and the apology returned; any other exception goes on to the caller.
\<close>

definition except_Exception :: "(exn + str option) \<times> world \<Rightarrow> (exn + str option) \<times> world" where
  "except_Exception r =
     (case r of
        (Inr v, w) \<Rightarrow> (Inr v, w)
      | (Inl e, w) \<Rightarrow>
          if is_Exception e
          then (let error_message = error_prefix @ str_of_exn e
                in (Inr (Some apology_text), w\<lparr>stdout := stdout w @ [error_message]\<rparr>))
          else (Inl e, w))"

text \<open>
  \<open>get_ai_response\<close> (lines 78--111). Its result is \<open>Inr v\<close> for a returned value
  \<open>v\<close>, a string or \<open>None\<close>, and \<open>Inl e\<close> for an exception that leaves it.
\<close>

definition get_ai_response :: "(str \<rightharpoonup> str) \<Rightarrow> client \<Rightarrow> (world \<Rightarrow> world) \<Rightarrow> int \<Rightarrow> str \<Rightarrow> world \<Rightarrow> (exn + str option) \<times> world" where
  "get_ai_response environ create during user_id user_message w =
     except_Exception (try_body environ create during user_id user_message w)"

section \<open>The handlers\<close>

text \<open>\<open>cmd_start\<close> (lines 115--132).\<close>

definition cmd_start :: "Message \<Rightarrow> world \<Rightarrow> world" where
  "cmd_start m w =
     (let user_id = from_user_id m;
          um = (if contains (user_messages w) user_id
                then (case getitem (user_messages w) user_id of
                        (d, um') \<Rightarrow> um'(user_id \<mapsto> deque_clear d))
                else user_messages w)
      in w\<lparr>user_messages := um, outbox := outbox w @ [Answer (chat_id m) welcome_text]\<rparr>)"

text \<open>\<open>cmd_help\<close> (lines 136--149).\<close>

definition cmd_help :: "Message \<Rightarrow> world \<Rightarrow> world" where
  "cmd_help m w = w\<lparr>outbox := outbox w @ [Answer (chat_id m) help_text]\<rparr>"

text \<open>
  \<open>message.answer(ai_response)\<close> at line 173, where the text comes from the
  provider: \<open>None\<close> is refused with a validation error before anything is sent.
\<close>

definition answer :: "Message \<Rightarrow> str option \<Rightarrow> world \<Rightarrow> (handler_failure + unit) \<times> world" where
  "answer m payload w =
     (case payload of
        None \<Rightarrow> (Inl ValidationError, w)
      | Some t \<Rightarrow> (Inr (), w\<lparr>outbox := outbox w @ [Answer (chat_id m) t]\<rparr>))"

text \<open>
  \<open>handle_text_message\<close> (lines 153--173). \<open>not message.text\<close> holds when the
  text is \<open>None\<close> and when it is the empty string. The handler is suspended twice
  before its last statement: at the \<open>await\<close> of the typing indicator (line 167) and,
  inside \<open>get_ai_response\<close>, at the provider call. \<open>during_typing\<close> and
  \<open>during_call\<close> are what the rest of the program does meanwhile.
\<close>

definition handle_text_message :: "(str \<rightharpoonup> str) \<Rightarrow> client \<Rightarrow> (world \<Rightarrow> world) \<Rightarrow> (world \<Rightarrow> world) \<Rightarrow> Message \<Rightarrow> world \<Rightarrow> (handler_failure + unit) \<times> world" where
  "handle_text_message environ create during_typing during_call m w =
     (let no_text = (Inr (), w\<lparr>outbox := outbox w @ [Answer (chat_id m) text_required_prompt]\<rparr>)
      in case msg_text m of
           None \<Rightarrow> no_text
         | Some user_message \<Rightarrow>
             if user_message = [] then no_text
             else
               (let user_id = from_user_id m;
                    w1 = during_typing
                           (w\<lparr>outbox := outbox w @ [ChatAction (chat_id m) ''typing'']\<rparr>)
                in case get_ai_response environ create during_call user_id user_message w1 of
                     (Inl e, w2) \<Rightarrow> (Inl (Uncaught e), w2)
                   | (Inr ai_response, w2) \<Rightarrow> answer m ai_response w2))"

section \<open>The program as interleaved segments\<close>

text \<open>
  Between two suspension points a handler runs alone. A run of the whole program is
  therefore a sequence of segments, each the stretch of one handler between two of its
  \<open>await\<close>s: the two command handlers (their only \<open>await\<close> is their last
  statement); the text handler up to the typing indicator (lines 159--167); the text
  handler from there to the provider call (lines 163--98); and the text handler from
  the return of the provider call to its end (lines 94--111 and 173), which is given
  what the call came back with. Segments of different handlers follow each other in
  any order. A run of the program is a sequence in which the three segments of each
  text message occur in their order; the sequences below are not restricted to
  those, so what holds for all of them holds for every run.
\<close>

datatype segment =
    Start Message
  | Help Message
  | TextArrives Message
  | CallProvider Message
  | ProviderDone Message outcome

fun run_segment :: "(str \<rightharpoonup> str) \<Rightarrow> segment \<Rightarrow> world \<Rightarrow> world" where
  "run_segment environ (Start m) w = cmd_start m w"
| "run_segment environ (Help m) w = cmd_help m w"
| "run_segment environ (TextArrives m) w =
     (case msg_text m of
        None \<Rightarrow> w\<lparr>outbox := outbox w @ [Answer (chat_id m) text_required_prompt]\<rparr>
      | Some user_message \<Rightarrow>
          if user_message = []
          then w\<lparr>outbox := outbox w @ [Answer (chat_id m) text_required_prompt]\<rparr>
          else w\<lparr>outbox := outbox w @ [ChatAction (chat_id m) ''typing'']\<rparr>)"
| "run_segment environ (CallProvider m) w =
     (case msg_text m of
        None \<Rightarrow> w
      | Some user_message \<Rightarrow>
          if user_message = [] then w
          else snd (before_await environ (from_user_id m) user_message w))"
| "run_segment environ (ProviderDone m result) w =
     (case except_Exception (after_await (from_user_id m) result w) of
        (Inl e, w2) \<Rightarrow> w2
      | (Inr ai_response, w2) \<Rightarrow> snd (answer m ai_response w2))"

fun run_segments :: "(str \<rightharpoonup> str) \<Rightarrow> segment list \<Rightarrow> world \<Rightarrow> world" where
  "run_segments environ [] w = w"
| "run_segments environ (s # ss) w = run_segments environ ss (run_segment environ s w)"

text \<open>
  A provider that answers with the text \<open>r\<close> in its first choice, and a user sending
  the texts of a list one after the other, each answered by the paired reply before
  the next is sent, with nothing else running meanwhile.
\<close>

definition answering :: "str \<Rightarrow> client" where
  "answering r = (\<lambda>req. Returns \<lparr>choices = [\<lparr>message = \<lparr>msg_content = Some r\<rparr>\<rparr>]\<rparr>)"

fun converse :: "(str \<rightharpoonup> str) \<Rightarrow> int \<Rightarrow> int \<Rightarrow> (str \<times> str) list \<Rightarrow> world \<Rightarrow> world" where
  "converse environ uid chat [] w = w"
| "converse environ uid chat ((t, r) # trs) w =
     converse environ uid chat trs
       (snd (handle_text_message environ (answering r) id id
               \<lparr>from_user_id = uid, chat_id = chat, msg_text = Some t\<rparr> w))"

section \<open>Invariants of the store and of the request trace\<close>

text \<open>
  The entries the program stores are user and assistant turns. \<open>store_inv\<close> says
  so for every history of a store, together with the bound on its length;
  \<open>requests_inv\<close> says that every request issued starts with the system entry and
  continues with stored turns.
\<close>

definition stored_entry :: "entry \<Rightarrow> bool" where
  "stored_entry e = (role e = ''user'' \<or> role e = ''assistant'')"

definition store_inv :: "store \<Rightarrow> bool" where
  "store_inv um = (\<forall>uid h. um uid = Some h \<longrightarrow> length h \<le> 10 \<and> (\<forall>e \<in> set h. stored_entry e))"

definition requests_inv :: "request list \<Rightarrow> bool" where
  "requests_inv rs =
     (\<forall>req \<in> set rs. \<exists>h. messages req = system_message # h \<and> (\<forall>e \<in> set h. stored_entry e))"

definition world_inv :: "world \<Rightarrow> bool" where
  "world_inv w = (store_inv (user_messages w) \<and> requests_inv (requests w))"

section \<open>The bounded history\<close>

text \<open>
  Closed forms of the store operations, and the effect of a sequence of appends on
  one user's history.
\<close>

lemma getitem_fst: "fst (getitem um uid) = (case um uid of Some d \<Rightarrow> d | None \<Rightarrow> [])"
  by (simp add: getitem_def split: option.split)

lemma append_entry_upd:
  "append_entry uid e um = um(uid \<mapsto> deque_append (fst (getitem um uid)) e)"
  by (simp add: append_entry_def getitem_def split: option.split)

lemma deque_append_below: "length d < 10 \<Longrightarrow> deque_append d x = d @ [x]"
  by (simp add: deque_append_def maxlen_def)

lemma deque_append_full: "length d = 10 \<Longrightarrow> deque_append d x = tl d @ [x]"
  by (cases d) (simp_all add: deque_append_def maxlen_def)

lemma deque_append_drop:
  "length d \<le> 10 \<Longrightarrow> deque_append d x = drop (length (d @ [x]) - 10) (d @ [x])"
  by (cases d) (auto simp add: deque_append_def maxlen_def Let_def drop_Cons')

lemma deque_append_length: "length d \<le> 10 \<Longrightarrow> length (deque_append d x) \<le> 10"
  by (simp add: deque_append_def maxlen_def Let_def)

lemma drop_keep_last:
  "drop (length (drop (length a - n) a @ ys) - n) (drop (length a - n) a @ ys) =
   drop (length (a @ ys) - n) (a @ ys)"
proof (cases "length a \<le> n")
  case True
  then show ?thesis by simp
next
  case False
  then have k: "length a - n + n = length a" by simp
  have "drop (length (a @ ys) - n) (a @ ys) = drop (length ys + (length a - n)) (a @ ys)"
    using False by (simp add: add.commute)
  also have "\<dots> = drop (length ys) (drop (length a - n) (a @ ys))"
    by (simp only: drop_drop)
  also have "\<dots> = drop (length ys) (drop (length a - n) a @ ys)"
    using False by simp
  finally show ?thesis using False by simp
qed

lemma fold_append_entry_other:
  "uid' \<noteq> uid \<Longrightarrow> fold (append_entry uid) es um uid' = um uid'"
  by (induction es arbitrary: um) (simp_all add: append_entry_upd)

lemma fold_append_entry_history:
  "length (fst (getitem um uid)) \<le> 10 \<Longrightarrow>
   fst (getitem (fold (append_entry uid) es um) uid) =
     drop (length (fst (getitem um uid) @ es) - 10) (fst (getitem um uid) @ es)"
proof (induction es arbitrary: um)
  case Nil
  then show ?case by simp
next
  case (Cons e es)
  let ?h = "fst (getitem um uid)"
  let ?um1 = "append_entry uid e um"
  have h1: "fst (getitem ?um1 uid) = deque_append ?h e"
    by (simp add: append_entry_upd getitem_fst)
  have len1: "length (fst (getitem ?um1 uid)) \<le> 10"
    using Cons.prems by (simp add: h1 deque_append_length)
  have "fst (getitem (fold (append_entry uid) (e # es) um) uid) =
        fst (getitem (fold (append_entry uid) es ?um1) uid)"
    by simp
  also have "\<dots> = drop (length (deque_append ?h e @ es) - 10) (deque_append ?h e @ es)"
    using Cons.IH [OF len1] by (simp add: h1)
  also have "\<dots> = drop (length (?h @ e # es) - 10) (?h @ e # es)"
    using Cons.prems drop_keep_last [of "?h @ [e]" 10 es] by (simp add: deque_append_drop)
  finally show ?case .
qed

lemma deque_append_alt: "deque_append d x = (if 10 \<le> length d then tl d else d) @ [x]"
  by (cases d) (simp_all add: deque_append_def Let_def maxlen_def)

lemma deque_append_last2:
  "deque_append (deque_append d x) y =
     (if 10 \<le> length (deque_append d x) then tl (if 10 \<le> length d then tl d else d) else
        (if 10 \<le> length d then tl d else d)) @ [x, y]"
proof (cases "if 10 \<le> length d then tl d else d")
  case Nil
  then have "deque_append d x = [x]"
    by (simp only: deque_append_alt [of d x] append_Nil)
  then show ?thesis
    using Nil by (simp add: deque_append_alt [of "[x]" y])
next
  case (Cons a p)
  then have "deque_append d x = a # p @ [x]"
    by (simp only: deque_append_alt [of d x] append_Cons)
  then show ?thesis
    using Cons by (simp add: deque_append_alt [of "a # p @ [x]" y])
qed

section \<open>The reply orchestrator\<close>

text \<open>
  The two halves of \<open>get_ai_response\<close> in closed form, and the function in each of
  the ways its provider call can go. The world the second half starts from is the one
  the first half left, as changed by whatever ran during the \<open>await\<close>.
\<close>

lemma format_messages_for_api_eq:
  "format_messages_for_api uid t um =
     (system_message # deque_append (fst (getitem um uid)) \<lparr>role = ''user'', content = Some t\<rparr>,
      um(uid \<mapsto> deque_append (fst (getitem um uid)) \<lparr>role = ''user'', content = Some t\<rparr>))"
  by (simp add: format_messages_for_api_def append_entry_upd getitem_def)

lemma before_await_eq:
  "before_await environ uid t w =
     (\<lparr>model = DEFAULT_MODEL environ,
        messages = fst (format_messages_for_api uid t (user_messages w)),
        temperature = 0.7\<rparr>,
      w\<lparr>user_messages := snd (format_messages_for_api uid t (user_messages w)),
        requests := requests w @ [\<lparr>model = DEFAULT_MODEL environ,
             messages = fst (format_messages_for_api uid t (user_messages w)),
             temperature = 0.7\<rparr>]\<rparr>)"
  by (simp add: before_await_def Let_def case_prod_beta)

lemma before_await_store:
  "user_messages (snd (before_await environ uid t w)) =
     append_entry uid \<lparr>role = ''user'', content = Some t\<rparr> (user_messages w)"
  by (simp add: before_await_eq format_messages_for_api_eq append_entry_upd)

lemma before_await_frame:
  "outbox (snd (before_await environ uid t w)) = outbox w"
  "stdout (snd (before_await environ uid t w)) = stdout w"
  by (simp_all add: before_await_eq)

lemma get_ai_response_eq:
  "get_ai_response environ create during uid t w =
     except_Exception
       (after_await uid
          (create \<lparr>model = DEFAULT_MODEL environ,
             messages = fst (format_messages_for_api uid t (user_messages w)),
             temperature = 0.7\<rparr>)
          (during (snd (before_await environ uid t w))))"
  by (simp add: get_ai_response_def try_body_def before_await_eq)

lemma get_ai_response_raises:
  assumes "create \<lparr>model = DEFAULT_MODEL environ,
             messages = fst (format_messages_for_api uid t (user_messages w)),
             temperature = 0.7\<rparr> = Raises e"
    and "is_Exception e"
  shows "get_ai_response environ create during uid t w =
     (Inr (Some apology_text),
      (during (snd (before_await environ uid t w)))
        \<lparr>stdout := stdout (during (snd (before_await environ uid t w))) @
                     [error_prefix @ str_of_exn e]\<rparr>)"
  using assms
  by (simp add: get_ai_response_eq after_await_def except_Exception_def Let_def)

lemma get_ai_response_propagates:
  assumes "create \<lparr>model = DEFAULT_MODEL environ,
             messages = fst (format_messages_for_api uid t (user_messages w)),
             temperature = 0.7\<rparr> = Raises e"
    and "\<not> is_Exception e"
  shows "get_ai_response environ create during uid t w =
     (Inl e, during (snd (before_await environ uid t w)))"
  using assms
  by (simp add: get_ai_response_eq after_await_def except_Exception_def Let_def)

lemma get_ai_response_no_choice:
  assumes "create \<lparr>model = DEFAULT_MODEL environ,
             messages = fst (format_messages_for_api uid t (user_messages w)),
             temperature = 0.7\<rparr> = Returns response"
    and "choices response = []"
  shows "get_ai_response environ create during uid t w =
     (Inr (Some apology_text),
      (during (snd (before_await environ uid t w)))
        \<lparr>stdout := stdout (during (snd (before_await environ uid t w))) @
                     [error_prefix @ str_of_exn IndexError]\<rparr>)"
  using assms
  by (simp add: get_ai_response_eq after_await_def except_Exception_def is_Exception_def Let_def)

lemma get_ai_response_returns:
  assumes "create \<lparr>model = DEFAULT_MODEL environ,
             messages = fst (format_messages_for_api uid t (user_messages w)),
             temperature = 0.7\<rparr> = Returns response"
    and "choices response = c # cs"
  shows "get_ai_response environ create during uid t w =
     (Inr (msg_content (message c)),
      (during (snd (before_await environ uid t w)))
        \<lparr>user_messages :=
           append_entry uid \<lparr>role = ''assistant'', content = msg_content (message c)\<rparr>
             (user_messages (during (snd (before_await environ uid t w))))\<rparr>)"
  using assms
  by (simp add: get_ai_response_eq after_await_def except_Exception_def Let_def)

lemma get_ai_response_cases:
  obtains (raises) e where
      "create \<lparr>model = DEFAULT_MODEL environ,
             messages = fst (format_messages_for_api uid t (user_messages w)),
             temperature = 0.7\<rparr> = Raises e"
      "is_Exception e"
  | (propagates) e where
      "create \<lparr>model = DEFAULT_MODEL environ,
             messages = fst (format_messages_for_api uid t (user_messages w)),
             temperature = 0.7\<rparr> = Raises e"
      "\<not> is_Exception e"
  | (no_choice) response where
      "create \<lparr>model = DEFAULT_MODEL environ,
             messages = fst (format_messages_for_api uid t (user_messages w)),
             temperature = 0.7\<rparr> = Returns response"
      "choices response = []"
  | (returns) response c cs where
      "create \<lparr>model = DEFAULT_MODEL environ,
             messages = fst (format_messages_for_api uid t (user_messages w)),
             temperature = 0.7\<rparr> = Returns response"
      "choices response = c # cs"
proof (cases "create \<lparr>model = DEFAULT_MODEL environ,
             messages = fst (format_messages_for_api uid t (user_messages w)),
             temperature = 0.7\<rparr>")
  case (Raises e)
  then show ?thesis
    by (cases "is_Exception e") (auto intro: raises propagates)
next
  case (Returns response)
  then show ?thesis
    by (cases "choices response") (auto intro: no_choice returns)
qed

lemma get_ai_response_requests:
  "requests (snd (get_ai_response environ create during uid t w)) =
     requests (during (snd (before_await environ uid t w)))"
  by (cases rule: get_ai_response_cases [of create environ uid t w])
    (simp_all add: get_ai_response_raises get_ai_response_propagates
      get_ai_response_no_choice get_ai_response_returns)

lemma get_ai_response_outbox:
  "outbox (snd (get_ai_response environ create during uid t w)) =
     outbox (during (snd (before_await environ uid t w)))"
  by (cases rule: get_ai_response_cases [of create environ uid t w])
    (simp_all add: get_ai_response_raises get_ai_response_propagates
      get_ai_response_no_choice get_ai_response_returns)

lemma get_ai_response_cong:
  assumes "create' \<lparr>model = DEFAULT_MODEL environ,
             messages = fst (format_messages_for_api uid t (user_messages w)),
             temperature = 0.7\<rparr> =
           create \<lparr>model = DEFAULT_MODEL environ,
             messages = fst (format_messages_for_api uid t (user_messages w)),
             temperature = 0.7\<rparr>"
  shows "get_ai_response environ create' during uid t w =
         get_ai_response environ create during uid t w"
  using assms by (simp add: get_ai_response_eq)

text \<open>
  Claim C2, as amended. When the provider call of \<open>get_ai_response\<close> raises an
  instance of \<open>Exception\<close>, the function returns the apology text and prints the
  error line. The user entry of the inbound message was appended before the call and is
  not taken back, and the function appends nothing after the call: the store it leaves
  is the store as it stood when the call came back. So, when nothing that ran during
  the call changed this user's history, the history ends with that user entry.
\<close>

theorem provider_failure_keeps_user_entry:
  assumes "create \<lparr>model = DEFAULT_MODEL environ,
             messages = fst (format_messages_for_api uid t (user_messages w)),
             temperature = 0.7\<rparr> = Raises e"
    and "is_Exception e"
  shows "fst (get_ai_response environ create during uid t w) = Inr (Some apology_text)
       \<and> user_messages (snd (before_await environ uid t w)) =
           append_entry uid \<lparr>role = ''user'', content = Some t\<rparr> (user_messages w)
       \<and> user_messages (snd (get_ai_response environ create during uid t w)) =
           user_messages (during (snd (before_await environ uid t w)))
       \<and> (user_messages (during (snd (before_await environ uid t w))) uid =
              user_messages (snd (before_await environ uid t w)) uid \<longrightarrow>
            (\<exists>pre. user_messages (snd (get_ai_response environ create during uid t w)) uid =
               Some (pre @ [\<lparr>role = ''user'', content = Some t\<rparr>])))
       \<and> stdout (snd (get_ai_response environ create during uid t w)) =
           stdout (during (snd (before_await environ uid t w))) @ [error_prefix @ str_of_exn e]"
proof -
  let ?u = "\<lparr>role = ''user'', content = Some t\<rparr>"
  let ?w1 = "snd (before_await environ uid t w)"
  note eq = get_ai_response_raises [where create = create and w = w and during = during, OF assms]
  have res: "fst (get_ai_response environ create during uid t w) = Inr (Some apology_text)"
    by (simp add: eq)
  have um: "user_messages (snd (get_ai_response environ create during uid t w)) =
      user_messages (during ?w1)"
    by (simp add: eq)
  have out: "stdout (snd (get_ai_response environ create during uid t w)) =
      stdout (during ?w1) @ [error_prefix @ str_of_exn e]"
    by (simp add: eq)
  have "user_messages ?w1 uid =
      Some ((if 10 \<le> length (fst (getitem (user_messages w) uid))
             then tl (fst (getitem (user_messages w) uid))
             else fst (getitem (user_messages w) uid)) @ [?u])"
    by (simp add: before_await_store append_entry_upd deque_append_alt)
  then have ends: "user_messages (during ?w1) uid = user_messages ?w1 uid \<longrightarrow>
      (\<exists>pre. user_messages (snd (get_ai_response environ create during uid t w)) uid =
         Some (pre @ [?u]))"
    unfolding um by auto
  from res um ends out before_await_store [of environ uid t w] show ?thesis
    by (intro conjI)
qed

theorem provider_failure_keeps_user_entry_witness:
  "fst (get_ai_response Map.empty (\<lambda>req. Raises (ProviderError ''timeout''))
          (run_segments Map.empty
             [TextArrives \<lparr>from_user_id = 7, chat_id = 70, msg_text = Some ''other''\<rparr>,
              CallProvider \<lparr>from_user_id = 7, chat_id = 70, msg_text = Some ''other''\<rparr>])
          42 ''hi''
          (initial_world\<lparr>user_messages :=
             [42 \<mapsto> [\<lparr>role = ''user'', content = Some ''a''\<rparr>,
                       \<lparr>role = ''assistant'', content = Some ''b''\<rparr>]]\<rparr>))
     = Inr (Some apology_text)
   \<and> (\<exists>pre. user_messages (snd (get_ai_response Map.empty (\<lambda>req. Raises (ProviderError ''timeout''))
          (run_segments Map.empty
             [TextArrives \<lparr>from_user_id = 7, chat_id = 70, msg_text = Some ''other''\<rparr>,
              CallProvider \<lparr>from_user_id = 7, chat_id = 70, msg_text = Some ''other''\<rparr>])
          42 ''hi''
          (initial_world\<lparr>user_messages :=
             [42 \<mapsto> [\<lparr>role = ''user'', content = Some ''a''\<rparr>,
                       \<lparr>role = ''assistant'', content = Some ''b''\<rparr>]]\<rparr>)))
     42 = Some (pre @ [\<lparr>role = ''user'', content = Some ''hi''\<rparr>]))"
proof -
  let ?create = "\<lambda>req::request. Raises (ProviderError ''timeout'')"
  let ?during = "run_segments Map.empty
             [TextArrives \<lparr>from_user_id = 7, chat_id = 70, msg_text = Some ''other''\<rparr>,
              CallProvider \<lparr>from_user_id = 7, chat_id = 70, msg_text = Some ''other''\<rparr>]"
  let ?w = "initial_world\<lparr>user_messages :=
             [42 \<mapsto> [\<lparr>role = ''user'', content = Some ''a''\<rparr>,
                       \<lparr>role = ''assistant'', content = Some ''b''\<rparr>]]\<rparr>"
  have h1: "?create \<lparr>model = DEFAULT_MODEL Map.empty,
             messages = fst (format_messages_for_api 42 ''hi'' (user_messages ?w)),
             temperature = 0.7\<rparr> = Raises (ProviderError ''timeout'')"
    by simp
  have h2: "is_Exception (ProviderError ''timeout'')"
    by (simp add: is_Exception_def)
  have h3: "user_messages (?during (snd (before_await Map.empty 42 ''hi'' ?w))) 42 =
      user_messages (snd (before_await Map.empty 42 ''hi'' ?w)) 42"
    by (simp add: before_await_eq format_messages_for_api_eq)
  note inst = provider_failure_keeps_user_entry
      [where create = ?create and w = ?w and during = ?during, OF h1 h2]
  from inst [THEN conjunct1] inst [THEN conjunct2, THEN conjunct2, THEN conjunct2, THEN conjunct1,
      THEN mp, OF h3]
  show ?thesis by (rule conjI)
qed

theorem provider_failure_keeps_user_entry_counterexample:
  "user_messages (snd (get_ai_response Map.empty (\<lambda>req. Raises (ProviderError ''timeout''))
          (run_segments Map.empty
             [TextArrives \<lparr>from_user_id = 1, chat_id = 2, msg_text = Some ''B''\<rparr>,
              CallProvider \<lparr>from_user_id = 1, chat_id = 2, msg_text = Some ''B''\<rparr>,
              ProviderDone \<lparr>from_user_id = 1, chat_id = 2, msg_text = Some ''B''\<rparr>
                (Returns \<lparr>choices = [\<lparr>message = \<lparr>msg_content = Some ''RB''\<rparr>\<rparr>]\<rparr>)])
          1 ''A'' initial_world)) 1 =
     Some [\<lparr>role = ''user'', content = Some ''A''\<rparr>, \<lparr>role = ''user'', content = Some ''B''\<rparr>,
           \<lparr>role = ''assistant'', content = Some ''RB''\<rparr>]
   \<and> \<not> (\<exists>pre. user_messages (snd (get_ai_response Map.empty
          (\<lambda>req. Raises (ProviderError ''timeout''))
          (run_segments Map.empty
             [TextArrives \<lparr>from_user_id = 1, chat_id = 2, msg_text = Some ''B''\<rparr>,
              CallProvider \<lparr>from_user_id = 1, chat_id = 2, msg_text = Some ''B''\<rparr>,
              ProviderDone \<lparr>from_user_id = 1, chat_id = 2, msg_text = Some ''B''\<rparr>
                (Returns \<lparr>choices = [\<lparr>message = \<lparr>msg_content = Some ''RB''\<rparr>\<rparr>]\<rparr>)])
          1 ''A'' initial_world)) 1 =
        Some (pre @ [\<lparr>role = ''user'', content = Some ''A''\<rparr>]))
   \<and> fst (get_ai_response Map.empty (\<lambda>req. Raises CancelledError) id 1 ''A'' initial_world) =
       Inl CancelledError"
proof -
  let ?during = "run_segments Map.empty
             [TextArrives \<lparr>from_user_id = 1, chat_id = 2, msg_text = Some ''B''\<rparr>,
              CallProvider \<lparr>from_user_id = 1, chat_id = 2, msg_text = Some ''B''\<rparr>,
              ProviderDone \<lparr>from_user_id = 1, chat_id = 2, msg_text = Some ''B''\<rparr>
                (Returns \<lparr>choices = [\<lparr>message = \<lparr>msg_content = Some ''RB''\<rparr>\<rparr>]\<rparr>)]"
  have ev: "user_messages (snd (get_ai_response Map.empty
        (\<lambda>req. Raises (ProviderError ''timeout'')) ?during 1 ''A'' initial_world)) 1 =
      Some [\<lparr>role = ''user'', content = Some ''A''\<rparr>, \<lparr>role = ''user'', content = Some ''B''\<rparr>,
            \<lparr>role = ''assistant'', content = Some ''RB''\<rparr>]"
    by (simp add: get_ai_response_eq before_await_eq after_await_def except_Exception_def
        is_Exception_def answer_def format_messages_for_api_eq append_entry_upd getitem_def
        deque_append_alt initial_world_def Let_def)
  have "\<not> (\<exists>pre. user_messages (snd (get_ai_response Map.empty
        (\<lambda>req. Raises (ProviderError ''timeout'')) ?during 1 ''A'' initial_world)) 1 =
      Some (pre @ [\<lparr>role = ''user'', content = Some ''A''\<rparr>]))"
    unfolding ev by (simp add: snoc_eq_iff_butlast)
  moreover have "fst (get_ai_response Map.empty (\<lambda>req. Raises CancelledError) id 1 ''A''
      initial_world) = Inl CancelledError"
    by (simp add: get_ai_response_eq after_await_def except_Exception_def is_Exception_def)
  ultimately show ?thesis using ev by (intro conjI)
qed

text \<open>
  Claim C3, as amended. When the provider call returns a response whose first choice
  carries the text \<open>R\<close>, \<open>get_ai_response\<close> returns \<open>R\<close> and appends the
  assistant entry with content \<open>R\<close> to the user's history as it stood when the call
  came back, so the history ends with that entry. When nothing that ran during the call
  changed this user's history, the entry before it is the user entry of the inbound
  message.
\<close>

theorem provider_success_appends_reply:
  assumes "create \<lparr>model = DEFAULT_MODEL environ,
             messages = fst (format_messages_for_api uid t (user_messages w)),
             temperature = 0.7\<rparr> = Returns response"
    and "choices response = c # cs"
    and "msg_content (message c) = Some R"
  shows "fst (get_ai_response environ create during uid t w) = Inr (Some R)
       \<and> user_messages (snd (get_ai_response environ create during uid t w)) =
           append_entry uid \<lparr>role = ''assistant'', content = Some R\<rparr>
             (user_messages (during (snd (before_await environ uid t w))))
       \<and> (\<exists>pre. user_messages (snd (get_ai_response environ create during uid t w)) uid =
             Some (pre @ [\<lparr>role = ''assistant'', content = Some R\<rparr>]))
       \<and> (user_messages (during (snd (before_await environ uid t w))) uid =
              user_messages (snd (before_await environ uid t w)) uid \<longrightarrow>
            (\<exists>pre. user_messages (snd (get_ai_response environ create during uid t w)) uid =
               Some (pre @ [\<lparr>role = ''user'', content = Some t\<rparr>,
                            \<lparr>role = ''assistant'', content = Some R\<rparr>])))"
proof -
  let ?u = "\<lparr>role = ''user'', content = Some t\<rparr>"
  let ?a = "\<lparr>role = ''assistant'', content = Some R\<rparr>"
  let ?h = "fst (getitem (user_messages w) uid)"
  let ?w1 = "snd (before_await environ uid t w)"
  note eq = get_ai_response_returns
      [where create = create and w = w and during = during, OF assms(1,2)]
  have res: "fst (get_ai_response environ create during uid t w) = Inr (Some R)"
    by (simp add: eq assms(3))
  have um: "user_messages (snd (get_ai_response environ create during uid t w)) =
      append_entry uid ?a (user_messages (during ?w1))"
    by (simp add: eq assms(3))
  have last: "\<exists>pre. user_messages (snd (get_ai_response environ create during uid t w)) uid =
      Some (pre @ [?a])"
    unfolding um by (simp add: append_entry_upd deque_append_alt)
  have both: "user_messages (during ?w1) uid = user_messages ?w1 uid \<longrightarrow>
      (\<exists>pre. user_messages (snd (get_ai_response environ create during uid t w)) uid =
         Some (pre @ [?u, ?a]))"
  proof
    assume same: "user_messages (during ?w1) uid = user_messages ?w1 uid"
    have "user_messages ?w1 uid = Some (deque_append ?h ?u)"
      by (simp add: before_await_store append_entry_upd)
    with same have "fst (getitem (user_messages (during ?w1)) uid) = deque_append ?h ?u"
      by (simp add: getitem_fst)
    then have "user_messages (snd (get_ai_response environ create during uid t w)) uid =
        Some (deque_append (deque_append ?h ?u) ?a)"
      unfolding um by (simp add: append_entry_upd)
    then show "\<exists>pre. user_messages (snd (get_ai_response environ create during uid t w)) uid =
        Some (pre @ [?u, ?a])"
      by (simp only: deque_append_last2 [of ?h ?u ?a]) blast
  qed
  from res um last both show ?thesis
    by (intro conjI)
qed

theorem provider_success_appends_reply_witness:
  "fst (get_ai_response Map.empty (answering ''hello'')
          (run_segments Map.empty
             [Start \<lparr>from_user_id = 7, chat_id = 70, msg_text = Some ''/start''\<rparr>])
          42 ''hi''
          (initial_world\<lparr>user_messages :=
             [42 \<mapsto> [\<lparr>role = ''user'', content = Some ''a''\<rparr>,
                       \<lparr>role = ''assistant'', content = Some ''b''\<rparr>]]\<rparr>))
     = Inr (Some ''hello'')
   \<and> (\<exists>pre. user_messages (snd (get_ai_response Map.empty (answering ''hello'')
          (run_segments Map.empty
             [Start \<lparr>from_user_id = 7, chat_id = 70, msg_text = Some ''/start''\<rparr>])
          42 ''hi''
          (initial_world\<lparr>user_messages :=
             [42 \<mapsto> [\<lparr>role = ''user'', content = Some ''a''\<rparr>,
                       \<lparr>role = ''assistant'', content = Some ''b''\<rparr>]]\<rparr>)))
     42 = Some (pre @ [\<lparr>role = ''user'', content = Some ''hi''\<rparr>,
                       \<lparr>role = ''assistant'', content = Some ''hello''\<rparr>]))"
proof -
  let ?during = "run_segments Map.empty
             [Start \<lparr>from_user_id = 7, chat_id = 70, msg_text = Some ''/start''\<rparr>]"
  let ?w = "initial_world\<lparr>user_messages :=
             [42 \<mapsto> [\<lparr>role = ''user'', content = Some ''a''\<rparr>,
                       \<lparr>role = ''assistant'', content = Some ''b''\<rparr>]]\<rparr>"
  let ?response = "\<lparr>choices = [\<lparr>message = \<lparr>msg_content = Some ''hello''\<rparr>\<rparr>]\<rparr>"
  have h1: "answering ''hello'' \<lparr>model = DEFAULT_MODEL Map.empty,
             messages = fst (format_messages_for_api 42 ''hi'' (user_messages ?w)),
             temperature = 0.7\<rparr> = Returns ?response"
    by (simp add: answering_def)
  have h2: "choices ?response = \<lparr>message = \<lparr>msg_content = Some ''hello''\<rparr>\<rparr> # []"
    by simp
  have h3: "msg_content (message \<lparr>message = \<lparr>msg_content = Some ''hello''\<rparr>\<rparr>) = Some ''hello''"
    by simp
  have h4: "user_messages (?during (snd (before_await Map.empty 42 ''hi'' ?w))) 42 =
      user_messages (snd (before_await Map.empty 42 ''hi'' ?w)) 42"
    by (simp add: before_await_eq format_messages_for_api_eq cmd_start_def contains_def
        initial_world_def)
  note inst = provider_success_appends_reply
      [where create = "answering ''hello''" and w = ?w and during = ?during, OF h1 h2 h3]
  from inst [THEN conjunct1]
    inst [THEN conjunct2, THEN conjunct2, THEN conjunct2, THEN mp, OF h4]
  show ?thesis by (rule conjI)
qed

theorem provider_success_appends_reply_counterexample:
  "user_messages (snd (get_ai_response Map.empty (answering ''RA'')
          (run_segments Map.empty
             [TextArrives \<lparr>from_user_id = 1, chat_id = 2, msg_text = Some ''B''\<rparr>,
              CallProvider \<lparr>from_user_id = 1, chat_id = 2, msg_text = Some ''B''\<rparr>])
          1 ''A'' initial_world)) 1 =
     Some [\<lparr>role = ''user'', content = Some ''A''\<rparr>, \<lparr>role = ''user'', content = Some ''B''\<rparr>,
           \<lparr>role = ''assistant'', content = Some ''RA''\<rparr>]
   \<and> \<not> (\<exists>pre. user_messages (snd (get_ai_response Map.empty (answering ''RA'')
          (run_segments Map.empty
             [TextArrives \<lparr>from_user_id = 1, chat_id = 2, msg_text = Some ''B''\<rparr>,
              CallProvider \<lparr>from_user_id = 1, chat_id = 2, msg_text = Some ''B''\<rparr>])
          1 ''A'' initial_world)) 1 =
        Some (pre @ [\<lparr>role = ''user'', content = Some ''A''\<rparr>,
                     \<lparr>role = ''assistant'', content = Some ''RA''\<rparr>]))"
proof -
  let ?during = "run_segments Map.empty
             [TextArrives \<lparr>from_user_id = 1, chat_id = 2, msg_text = Some ''B''\<rparr>,
              CallProvider \<lparr>from_user_id = 1, chat_id = 2, msg_text = Some ''B''\<rparr>]"
  have ev: "user_messages (snd (get_ai_response Map.empty (answering ''RA'') ?during 1 ''A''
        initial_world)) 1 =
      Some [\<lparr>role = ''user'', content = Some ''A''\<rparr>, \<lparr>role = ''user'', content = Some ''B''\<rparr>,
            \<lparr>role = ''assistant'', content = Some ''RA''\<rparr>]"
    by (simp add: get_ai_response_eq before_await_eq after_await_def except_Exception_def
        answering_def format_messages_for_api_eq append_entry_upd getitem_def
        deque_append_alt initial_world_def Let_def)
  have "\<not> (\<exists>pre. user_messages (snd (get_ai_response Map.empty (answering ''RA'') ?during 1 ''A''
        initial_world)) 1 =
      Some (pre @ [\<lparr>role = ''user'', content = Some ''A''\<rparr>,
                   \<lparr>role = ''assistant'', content = Some ''RA''\<rparr>]))"
  proof
    assume "\<exists>pre. user_messages (snd (get_ai_response Map.empty (answering ''RA'') ?during 1 ''A''
        initial_world)) 1 =
      Some (pre @ [\<lparr>role = ''user'', content = Some ''A''\<rparr>,
                   \<lparr>role = ''assistant'', content = Some ''RA''\<rparr>])"
    then obtain pre where
      "[\<lparr>role = ''user'', content = Some ''A''\<rparr>, \<lparr>role = ''user'', content = Some ''B''\<rparr>,
        \<lparr>role = ''assistant'', content = Some ''RA''\<rparr>] =
       pre @ [\<lparr>role = ''user'', content = Some ''A''\<rparr>,
              \<lparr>role = ''assistant'', content = Some ''RA''\<rparr>]"
      unfolding ev by auto
    then have "butlast [\<lparr>role = ''user'', content = Some ''A''\<rparr>,
        \<lparr>role = ''user'', content = Some ''B''\<rparr>, \<lparr>role = ''assistant'', content = Some ''RA''\<rparr>] =
       butlast (pre @ [\<lparr>role = ''user'', content = Some ''A''\<rparr>,
              \<lparr>role = ''assistant'', content = Some ''RA''\<rparr>])"
      by (rule arg_cong)
    then have "[\<lparr>role = ''user'', content = Some ''A''\<rparr>, \<lparr>role = ''user'', content = Some ''B''\<rparr>] =
       pre @ [\<lparr>role = ''user'', content = Some ''A''\<rparr>]"
      by (simp add: butlast_append)
    then show False
      by (simp add: snoc_eq_iff_butlast)
  qed
  with ev show ?thesis by (rule conjI)
qed

text \<open>
  Claim C4. The list returned by \<open>format_messages_for_api\<close> is the system entry
  followed by the contents of the user's history as it is after the call, that is with
  the user entry of the inbound text appended, oldest entry first. For a user without
  earlier entries it is the system entry followed by that user entry. This list is the
  \<open>messages\<close> argument of the request \<open>get_ai_response\<close> issues before it is
  suspended, and the function issues no other request.
\<close>

theorem request_is_system_then_history:
  "fst (format_messages_for_api uid t um) =
     system_message # fst (getitem (snd (format_messages_for_api uid t um)) uid)
   \<and> snd (format_messages_for_api uid t um) =
       append_entry uid \<lparr>role = ''user'', content = Some t\<rparr> um
   \<and> (fst (getitem um uid) = [] \<longrightarrow>
        fst (format_messages_for_api uid t um) =
          [system_message, \<lparr>role = ''user'', content = Some t\<rparr>])
   \<and> system_message = \<lparr>role = ''system'', content = Some system_content\<rparr>
   \<and> requests (snd (before_await environ uid t w)) =
       requests w @ [\<lparr>model = DEFAULT_MODEL environ,
                      messages = fst (format_messages_for_api uid t (user_messages w)),
                      temperature = 0.7\<rparr>]
   \<and> requests (snd (get_ai_response environ create during uid t w)) =
       requests (during (snd (before_await environ uid t w)))
   \<and> requests (snd (get_ai_response environ create id uid t w)) =
       requests w @ [\<lparr>model = DEFAULT_MODEL environ,
                      messages = fst (format_messages_for_api uid t (user_messages w)),
                      temperature = 0.7\<rparr>]"
proof (intro conjI)
  show "fst (format_messages_for_api uid t um) =
      system_message # fst (getitem (snd (format_messages_for_api uid t um)) uid)"
    by (simp add: format_messages_for_api_eq getitem_fst)
  show "snd (format_messages_for_api uid t um) =
      append_entry uid \<lparr>role = ''user'', content = Some t\<rparr> um"
    by (simp add: format_messages_for_api_eq append_entry_upd)
  show "fst (getitem um uid) = [] \<longrightarrow>
      fst (format_messages_for_api uid t um) =
        [system_message, \<lparr>role = ''user'', content = Some t\<rparr>]"
    by (simp add: format_messages_for_api_eq deque_append_alt)
  show "system_message = \<lparr>role = ''system'', content = Some system_content\<rparr>"
    by (simp add: system_message_def)
  show "requests (snd (before_await environ uid t w)) =
       requests w @ [\<lparr>model = DEFAULT_MODEL environ,
                      messages = fst (format_messages_for_api uid t (user_messages w)),
                      temperature = 0.7\<rparr>]"
    by (simp add: before_await_eq)
  show "requests (snd (get_ai_response environ create during uid t w)) =
       requests (during (snd (before_await environ uid t w)))"
    by (rule get_ai_response_requests)
  show "requests (snd (get_ai_response environ create id uid t w)) =
       requests w @ [\<lparr>model = DEFAULT_MODEL environ,
                      messages = fst (format_messages_for_api uid t (user_messages w)),
                      temperature = 0.7\<rparr>]"
    by (simp add: get_ai_response_requests before_await_eq)
qed

theorem request_is_system_then_history_witness:
  "fst (getitem Map.empty 5) = []
   \<and> fst (format_messages_for_api 5 ''T'' Map.empty) =
       [\<lparr>role = ''system'', content = Some system_content\<rparr>,
        \<lparr>role = ''user'', content = Some ''T''\<rparr>]
   \<and> fst (format_messages_for_api 5 ''T''
            [5 \<mapsto> [\<lparr>role = ''assistant'', content = Some ''R''\<rparr>]]) =
       [\<lparr>role = ''system'', content = Some system_content\<rparr>,
        \<lparr>role = ''assistant'', content = Some ''R''\<rparr>,
        \<lparr>role = ''user'', content = Some ''T''\<rparr>]"
proof -
  have h: "fst (getitem Map.empty (5::int)) = []"
    by (simp add: getitem_def)
  from request_is_system_then_history [of 5 "''T''" Map.empty]
       request_is_system_then_history [of 5 "''T''"
         "[5 \<mapsto> [\<lparr>role = ''assistant'', content = Some ''R''\<rparr>]]"]
  show ?thesis using h
    by (simp add: getitem_def append_entry_def deque_append_def maxlen_def)
qed

lemma handle_text_message_text:
  assumes "msg_text m = Some s" and "s \<noteq> []"
  shows "handle_text_message environ create during_typing during_call m w =
     (case get_ai_response environ create during_call (from_user_id m) s
             (during_typing (w\<lparr>outbox := outbox w @ [ChatAction (chat_id m) ''typing'']\<rparr>)) of
        (Inl e, w2) \<Rightarrow> (Inl (Uncaught e), w2)
      | (Inr ai_response, w2) \<Rightarrow> answer m ai_response w2)"
  using assms by (simp add: handle_text_message_def Let_def)

lemma handle_text_message_replies:
  assumes "msg_text m = Some s" and "s \<noteq> []"
    and "fst (get_ai_response environ create during_call (from_user_id m) s
            (during_typing (w\<lparr>outbox := outbox w @ [ChatAction (chat_id m) ''typing'']\<rparr>))) =
         Inr (Some r)"
  shows "handle_text_message environ create during_typing during_call m w =
     (Inr (),
      (snd (get_ai_response environ create during_call (from_user_id m) s
              (during_typing (w\<lparr>outbox := outbox w @ [ChatAction (chat_id m) ''typing'']\<rparr>))))
        \<lparr>outbox :=
           outbox (during_call (snd (before_await environ (from_user_id m) s
              (during_typing (w\<lparr>outbox := outbox w @ [ChatAction (chat_id m) ''typing'']\<rparr>)))))
           @ [Answer (chat_id m) r]\<rparr>)"
proof -
  let ?w1 = "during_typing (w\<lparr>outbox := outbox w @ [ChatAction (chat_id m) ''typing'']\<rparr>)"
  obtain w2 where g: "get_ai_response environ create during_call (from_user_id m) s ?w1 =
      (Inr (Some r), w2)"
    using assms(3) by (cases "get_ai_response environ create during_call (from_user_id m) s ?w1")
      simp
  have "outbox w2 = outbox (during_call (snd (before_await environ (from_user_id m) s ?w1)))"
    using get_ai_response_outbox [of environ create during_call "from_user_id m" s ?w1] g
    by simp
  then show ?thesis
    by (simp add: handle_text_message_text [OF assms(1,2)] g answer_def)
qed

lemma handle_text_message_uncaught:
  assumes "msg_text m = Some s" and "s \<noteq> []"
    and "fst (get_ai_response environ create during_call (from_user_id m) s
            (during_typing (w\<lparr>outbox := outbox w @ [ChatAction (chat_id m) ''typing'']\<rparr>))) =
         Inl e"
  shows "handle_text_message environ create during_typing during_call m w =
     (Inl (Uncaught e),
      snd (get_ai_response environ create during_call (from_user_id m) s
              (during_typing (w\<lparr>outbox := outbox w @ [ChatAction (chat_id m) ''typing'']\<rparr>))))"
proof -
  let ?w1 = "during_typing (w\<lparr>outbox := outbox w @ [ChatAction (chat_id m) ''typing'']\<rparr>)"
  obtain w2 where g: "get_ai_response environ create during_call (from_user_id m) s ?w1 =
      (Inl e, w2)"
    using assms(3) by (cases "get_ai_response environ create during_call (from_user_id m) s ?w1")
      simp
  then show ?thesis
    by (simp add: handle_text_message_text [OF assms(1,2)])
qed

text \<open>
  Claim C5, as amended. \<open>get_ai_response\<close> returns a text when its provider call
  raises an instance of \<open>Exception\<close> (the apology), when the response has no choice
  (the apology, through the \<open>IndexError\<close> of line 101) and when the first choice
  carries a text (that text). An exception that is not an instance of \<open>Exception\<close>
  is not caught: it leaves \<open>get_ai_response\<close>, and then leaves
  \<open>handle_text_message\<close> without a reply. Whenever \<open>get_ai_response\<close> returns a
  text to \<open>handle_text_message\<close>, the handler ends normally and its one text reply
  is that text: apart from what ran while it was suspended, it adds the typing
  indicator and then this reply to what the transport was handed.
\<close>

theorem get_ai_response_text_unless_uncaught:
  "(\<forall>e. create \<lparr>model = DEFAULT_MODEL environ,
                  messages = fst (format_messages_for_api uid t (user_messages w)),
                  temperature = 0.7\<rparr> = Raises e \<longrightarrow> is_Exception e \<longrightarrow>
        fst (get_ai_response environ create during uid t w) = Inr (Some apology_text))
   \<and> (\<forall>e. create \<lparr>model = DEFAULT_MODEL environ,
                  messages = fst (format_messages_for_api uid t (user_messages w)),
                  temperature = 0.7\<rparr> = Raises e \<longrightarrow> \<not> is_Exception e \<longrightarrow>
        fst (get_ai_response environ create during uid t w) = Inl e)
   \<and> (\<forall>response. create \<lparr>model = DEFAULT_MODEL environ,
                  messages = fst (format_messages_for_api uid t (user_messages w)),
                  temperature = 0.7\<rparr> = Returns response \<longrightarrow> choices response = [] \<longrightarrow>
        fst (get_ai_response environ create during uid t w) = Inr (Some apology_text))
   \<and> (\<forall>response c cs R. create \<lparr>model = DEFAULT_MODEL environ,
                  messages = fst (format_messages_for_api uid t (user_messages w)),
                  temperature = 0.7\<rparr> = Returns response \<longrightarrow> choices response = c # cs \<longrightarrow>
        msg_content (message c) = Some R \<longrightarrow>
        fst (get_ai_response environ create during uid t w) = Inr (Some R))
   \<and> (\<forall>s r. msg_text m = Some s \<longrightarrow> s \<noteq> [] \<longrightarrow>
        fst (get_ai_response environ create during_call (from_user_id m) s
               (during_typing (w\<lparr>outbox := outbox w @ [ChatAction (chat_id m) ''typing'']\<rparr>))) =
          Inr (Some r) \<longrightarrow>
        fst (handle_text_message environ create during_typing during_call m w) = Inr ()
        \<and> outbox (snd (handle_text_message environ create during_typing during_call m w)) =
            outbox (during_call (snd (before_await environ (from_user_id m) s
              (during_typing (w\<lparr>outbox := outbox w @ [ChatAction (chat_id m) ''typing'']\<rparr>)))))
            @ [Answer (chat_id m) r])
   \<and> (\<forall>s r. msg_text m = Some s \<longrightarrow> s \<noteq> [] \<longrightarrow>
        fst (get_ai_response environ create id (from_user_id m) s
               (w\<lparr>outbox := outbox w @ [ChatAction (chat_id m) ''typing'']\<rparr>)) = Inr (Some r) \<longrightarrow>
        outbox (snd (handle_text_message environ create id id m w)) =
          outbox w @ [ChatAction (chat_id m) ''typing'', Answer (chat_id m) r])
   \<and> (\<forall>s e. msg_text m = Some s \<longrightarrow> s \<noteq> [] \<longrightarrow>
        fst (get_ai_response environ create during_call (from_user_id m) s
               (during_typing (w\<lparr>outbox := outbox w @ [ChatAction (chat_id m) ''typing'']\<rparr>))) =
          Inl e \<longrightarrow>
        fst (handle_text_message environ create during_typing during_call m w) =
          Inl (Uncaught e)
        \<and> outbox (snd (handle_text_message environ create during_typing during_call m w)) =
            outbox (during_call (snd (before_await environ (from_user_id m) s
              (during_typing (w\<lparr>outbox := outbox w @ [ChatAction (chat_id m) ''typing'']\<rparr>))))))"
proof (intro conjI allI impI)
  fix e
  assume "create \<lparr>model = DEFAULT_MODEL environ,
      messages = fst (format_messages_for_api uid t (user_messages w)),
      temperature = 0.7\<rparr> = Raises e" and "is_Exception e"
  then show "fst (get_ai_response environ create during uid t w) = Inr (Some apology_text)"
    by (simp add: get_ai_response_raises [where create = create and w = w])
next
  fix e
  assume "create \<lparr>model = DEFAULT_MODEL environ,
      messages = fst (format_messages_for_api uid t (user_messages w)),
      temperature = 0.7\<rparr> = Raises e" and "\<not> is_Exception e"
  then show "fst (get_ai_response environ create during uid t w) = Inl e"
    by (simp add: get_ai_response_propagates [where create = create and w = w])
next
  fix response
  assume "create \<lparr>model = DEFAULT_MODEL environ,
      messages = fst (format_messages_for_api uid t (user_messages w)),
      temperature = 0.7\<rparr> = Returns response" and "choices response = []"
  then show "fst (get_ai_response environ create during uid t w) = Inr (Some apology_text)"
    by (simp add: get_ai_response_no_choice [where create = create and w = w])
next
  fix response c cs R
  assume "create \<lparr>model = DEFAULT_MODEL environ,
      messages = fst (format_messages_for_api uid t (user_messages w)),
      temperature = 0.7\<rparr> = Returns response" and "choices response = c # cs"
    and "msg_content (message c) = Some R"
  then show "fst (get_ai_response environ create during uid t w) = Inr (Some R)"
    by (simp add: get_ai_response_returns [where create = create and w = w])
next
  fix s r
  assume a: "msg_text m = Some s" "s \<noteq> []"
    "fst (get_ai_response environ create during_call (from_user_id m) s
       (during_typing (w\<lparr>outbox := outbox w @ [ChatAction (chat_id m) ''typing'']\<rparr>))) =
     Inr (Some r)"
  show "fst (handle_text_message environ create during_typing during_call m w) = Inr ()"
    by (simp add: handle_text_message_replies [where during_typing = during_typing and during_call = during_call and w = w and create = create, OF a])
  show "outbox (snd (handle_text_message environ create during_typing during_call m w)) =
      outbox (during_call (snd (before_await environ (from_user_id m) s
        (during_typing (w\<lparr>outbox := outbox w @ [ChatAction (chat_id m) ''typing'']\<rparr>)))))
      @ [Answer (chat_id m) r]"
    by (simp add: handle_text_message_replies [where during_typing = during_typing and during_call = during_call and w = w and create = create, OF a])
next
  fix s r
  assume a: "msg_text m = Some s" "s \<noteq> []"
    "fst (get_ai_response environ create id (from_user_id m) s
       (w\<lparr>outbox := outbox w @ [ChatAction (chat_id m) ''typing'']\<rparr>)) = Inr (Some r)"
  then have "fst (get_ai_response environ create id (from_user_id m) s
       (id (w\<lparr>outbox := outbox w @ [ChatAction (chat_id m) ''typing'']\<rparr>))) = Inr (Some r)"
    by simp
  from handle_text_message_replies [where during_typing = id and during_call = id and w = w and create = create, OF a(1,2) this]
  show "outbox (snd (handle_text_message environ create id id m w)) =
      outbox w @ [ChatAction (chat_id m) ''typing'', Answer (chat_id m) r]"
    by (simp add: before_await_frame)
next
  fix s e
  assume a: "msg_text m = Some s" "s \<noteq> []"
    "fst (get_ai_response environ create during_call (from_user_id m) s
       (during_typing (w\<lparr>outbox := outbox w @ [ChatAction (chat_id m) ''typing'']\<rparr>))) =
     Inl e"
  show "fst (handle_text_message environ create during_typing during_call m w) =
      Inl (Uncaught e)"
    by (simp add: handle_text_message_uncaught [where during_typing = during_typing and during_call = during_call and w = w and create = create, OF a])
  show "outbox (snd (handle_text_message environ create during_typing during_call m w)) =
      outbox (during_call (snd (before_await environ (from_user_id m) s
        (during_typing (w\<lparr>outbox := outbox w @ [ChatAction (chat_id m) ''typing'']\<rparr>)))))"
    by (simp add: handle_text_message_uncaught [where during_typing = during_typing and during_call = during_call and w = w and create = create, OF a] get_ai_response_outbox)
qed

theorem get_ai_response_text_unless_uncaught_witness:
  "fst (get_ai_response Map.empty (\<lambda>req. Raises (ProviderError ''503'')) id 1 ''hi''
          initial_world) = Inr (Some apology_text)
   \<and> fst (get_ai_response Map.empty (\<lambda>req. Returns \<lparr>choices = []\<rparr>) id 1 ''hi''
          initial_world) = Inr (Some apology_text)
   \<and> fst (get_ai_response Map.empty (answering ''hello'') id 1 ''hi'' initial_world) =
       Inr (Some ''hello'')
   \<and> outbox (snd (handle_text_message Map.empty (answering ''hello'') id id
          \<lparr>from_user_id = 1, chat_id = 2, msg_text = Some ''hi''\<rparr> initial_world)) =
       [ChatAction 2 ''typing'', Answer 2 ''hello'']"
proof -
  let ?m = "\<lparr>from_user_id = 1, chat_id = 2, msg_text = Some ''hi''\<rparr>"
  let ?REQ = "\<lparr>model = DEFAULT_MODEL Map.empty,
      messages = fst (format_messages_for_api 1 ''hi'' (user_messages initial_world)),
      temperature = 0.7\<rparr>"
  note a = get_ai_response_text_unless_uncaught
      [where create = "\<lambda>req. Raises (ProviderError ''503'')" and environ = Map.empty
         and during = id and uid = 1 and t = "''hi''" and w = initial_world and m = ?m
         and during_typing = id and during_call = id]
  note b = get_ai_response_text_unless_uncaught
      [where create = "\<lambda>req. Returns \<lparr>choices = []\<rparr>" and environ = Map.empty
         and during = id and uid = 1 and t = "''hi''" and w = initial_world and m = ?m
         and during_typing = id and during_call = id]
  note c = get_ai_response_text_unless_uncaught
      [where create = "answering ''hello''" and environ = Map.empty
         and during = id and uid = 1 and t = "''hi''" and w = initial_world and m = ?m
         and during_typing = id and during_call = id]
  have 1: "fst (get_ai_response Map.empty (\<lambda>req. Raises (ProviderError ''503'')) id 1 ''hi''
      initial_world) = Inr (Some apology_text)"
    using a [THEN conjunct1, THEN spec, of "ProviderError ''503''"]
    by (simp add: is_Exception_def)
  have 2: "fst (get_ai_response Map.empty (\<lambda>req. Returns \<lparr>choices = []\<rparr>) id 1 ''hi''
      initial_world) = Inr (Some apology_text)"
    using b [THEN conjunct2, THEN conjunct2, THEN conjunct1, THEN spec, of "\<lparr>choices = []\<rparr>"]
    by simp
  have 3: "fst (get_ai_response Map.empty (answering ''hello'') id 1 ''hi'' initial_world) =
      Inr (Some ''hello'')"
    using c [THEN conjunct2, THEN conjunct2, THEN conjunct2, THEN conjunct1, THEN spec, THEN spec,
        THEN spec, THEN spec,
        of "\<lparr>choices = [\<lparr>message = \<lparr>msg_content = Some ''hello''\<rparr>\<rparr>]\<rparr>"
           "\<lparr>message = \<lparr>msg_content = Some ''hello''\<rparr>\<rparr>" "[]" "''hello''"]
    by (simp add: answering_def)
  have g: "fst (get_ai_response Map.empty (answering ''hello'') id (from_user_id ?m) ''hi''
      (initial_world\<lparr>outbox := outbox initial_world @ [ChatAction (chat_id ?m) ''typing'']\<rparr>)) =
      Inr (Some ''hello'')"
    by (simp add: get_ai_response_eq after_await_def except_Exception_def answering_def Let_def)
  have 4: "outbox (snd (handle_text_message Map.empty (answering ''hello'') id id ?m
      initial_world)) = [ChatAction 2 ''typing'', Answer 2 ''hello'']"
    using c [THEN conjunct2, THEN conjunct2, THEN conjunct2, THEN conjunct2, THEN conjunct2,
        THEN conjunct1, THEN spec, THEN spec, of "''hi''" "''hello''"] g
    by (simp add: initial_world_def)
  from 1 2 3 4 show ?thesis by (intro conjI)
qed

theorem get_ai_response_text_unless_uncaught_counterexample:
  "fst (get_ai_response Map.empty (\<lambda>req. Raises CancelledError) id 1 ''hi'' initial_world) =
     Inl CancelledError
   \<and> handle_text_message Map.empty (\<lambda>req. Raises CancelledError) id id
        \<lparr>from_user_id = 1, chat_id = 2, msg_text = Some ''hi''\<rparr> initial_world =
      (Inl (Uncaught CancelledError),
       \<lparr>user_messages = [1 \<mapsto> [\<lparr>role = ''user'', content = Some ''hi''\<rparr>]],
        requests = [\<lparr>model = ''google/gemini-pro-1.5'',
                     messages = [system_message, \<lparr>role = ''user'', content = Some ''hi''\<rparr>],
                     temperature = 7 / 10\<rparr>],
        stdout = [],
        outbox = [ChatAction 2 ''typing'']\<rparr>)
   \<and> fst (get_ai_response Map.empty
            (\<lambda>req. Returns \<lparr>choices = [\<lparr>message = \<lparr>msg_content = None\<rparr>\<rparr>]\<rparr>) id 1 ''hi''
            initial_world) = Inr None
   \<and> handle_text_message Map.empty
        (\<lambda>req. Returns \<lparr>choices = [\<lparr>message = \<lparr>msg_content = None\<rparr>\<rparr>]\<rparr>) id id
        \<lparr>from_user_id = 1, chat_id = 2, msg_text = Some ''hi''\<rparr> initial_world =
      (Inl ValidationError,
       \<lparr>user_messages = [1 \<mapsto> [\<lparr>role = ''user'', content = Some ''hi''\<rparr>,
                                 \<lparr>role = ''assistant'', content = None\<rparr>]],
        requests = [\<lparr>model = ''google/gemini-pro-1.5'',
                     messages = [system_message, \<lparr>role = ''user'', content = Some ''hi''\<rparr>],
                     temperature = 7 / 10\<rparr>],
        stdout = [],
        outbox = [ChatAction 2 ''typing'']\<rparr>)"
  by (simp add: handle_text_message_def get_ai_response_eq before_await_eq after_await_def
      except_Exception_def is_Exception_def answer_def format_messages_for_api_eq
      append_entry_upd getitem_def deque_append_alt initial_world_def DEFAULT_MODEL_def
      getenv_def Let_def)

text \<open>
  Claim C9. \<open>get_ai_response\<close> issues exactly one provider request, before it is
  suspended, and none after; its temperature is 0.7 and its model is
  \<open>DEFAULT_MODEL\<close>, and the provider's behaviour on this one request determines the
  whole result. \<open>DEFAULT_MODEL\<close> is the value of the environment variable
  \<open>OPENROUTER_MODEL\<close> when it is set and \<open>google/gemini-pro-1.5\<close> when it is not.
\<close>

theorem provider_call_parameters:
  "requests (snd (before_await environ uid t w)) =
     requests w @ [\<lparr>model = DEFAULT_MODEL environ,
                    messages = fst (format_messages_for_api uid t (user_messages w)),
                    temperature = 0.7\<rparr>]
   \<and> requests (snd (get_ai_response environ create during uid t w)) =
       requests (during (snd (before_await environ uid t w)))
   \<and> requests (snd (get_ai_response environ create id uid t w)) =
       requests w @ [\<lparr>model = DEFAULT_MODEL environ,
                      messages = fst (format_messages_for_api uid t (user_messages w)),
                      temperature = 0.7\<rparr>]
   \<and> (\<forall>create'.
         create' \<lparr>model = DEFAULT_MODEL environ,
                  messages = fst (format_messages_for_api uid t (user_messages w)),
                  temperature = 0.7\<rparr> =
         create \<lparr>model = DEFAULT_MODEL environ,
                 messages = fst (format_messages_for_api uid t (user_messages w)),
                 temperature = 0.7\<rparr> \<longrightarrow>
         get_ai_response environ create' during uid t w =
         get_ai_response environ create during uid t w)
   \<and> DEFAULT_MODEL environ =
       (case environ ''OPENROUTER_MODEL'' of None \<Rightarrow> ''google/gemini-pro-1.5'' | Some v \<Rightarrow> v)"
proof (intro conjI allI impI)
  show "requests (snd (before_await environ uid t w)) =
     requests w @ [\<lparr>model = DEFAULT_MODEL environ,
                    messages = fst (format_messages_for_api uid t (user_messages w)),
                    temperature = 0.7\<rparr>]"
    by (simp add: before_await_eq)
next
  show "requests (snd (get_ai_response environ create during uid t w)) =
       requests (during (snd (before_await environ uid t w)))"
    by (rule get_ai_response_requests)
next
  show "requests (snd (get_ai_response environ create id uid t w)) =
     requests w @ [\<lparr>model = DEFAULT_MODEL environ,
                    messages = fst (format_messages_for_api uid t (user_messages w)),
                    temperature = 0.7\<rparr>]"
    by (simp add: get_ai_response_requests before_await_eq)
next
  fix create'
  assume "create' \<lparr>model = DEFAULT_MODEL environ,
                  messages = fst (format_messages_for_api uid t (user_messages w)),
                  temperature = 0.7\<rparr> =
         create \<lparr>model = DEFAULT_MODEL environ,
                 messages = fst (format_messages_for_api uid t (user_messages w)),
                 temperature = 0.7\<rparr>"
  then show "get_ai_response environ create' during uid t w =
      get_ai_response environ create during uid t w"
    by (rule get_ai_response_cong)
next
  show "DEFAULT_MODEL environ =
      (case environ ''OPENROUTER_MODEL'' of None \<Rightarrow> ''google/gemini-pro-1.5'' | Some v \<Rightarrow> v)"
    by (simp add: DEFAULT_MODEL_def getenv_def split: option.split)
qed

theorem provider_call_parameters_witness:
  "requests (snd (get_ai_response Map.empty (answering ''ok'') id 3 ''hi'' initial_world)) =
     [\<lparr>model = ''google/gemini-pro-1.5'',
       messages = [system_message, \<lparr>role = ''user'', content = Some ''hi''\<rparr>],
       temperature = 7 / 10\<rparr>]
   \<and> get_ai_response Map.empty (\<lambda>req. if temperature req = 7 / 10 then answering ''ok'' req
                                        else Raises IndexError) id 3 ''hi'' initial_world =
     get_ai_response Map.empty (answering ''ok'') id 3 ''hi'' initial_world
   \<and> DEFAULT_MODEL [''OPENROUTER_MODEL'' \<mapsto> ''openai/gpt-4o''] = ''openai/gpt-4o''"
proof -
  note a = provider_call_parameters [of Map.empty 3 "''hi''" initial_world "answering ''ok''" id]
  note b = provider_call_parameters [of "[''OPENROUTER_MODEL'' \<mapsto> ''openai/gpt-4o'']"
      3 "''hi''" initial_world "answering ''ok''" id]
  have "requests (snd (get_ai_response Map.empty (answering ''ok'') id 3 ''hi'' initial_world)) =
     [\<lparr>model = ''google/gemini-pro-1.5'',
       messages = [system_message, \<lparr>role = ''user'', content = Some ''hi''\<rparr>],
       temperature = 7 / 10\<rparr>]"
    using a [THEN conjunct2, THEN conjunct2, THEN conjunct1]
    by (simp add: format_messages_for_api_eq getitem_def deque_append_alt initial_world_def
        DEFAULT_MODEL_def getenv_def)
  moreover have "get_ai_response Map.empty
         (\<lambda>req. if temperature req = 7 / 10 then answering ''ok'' req else Raises IndexError)
         id 3 ''hi'' initial_world =
       get_ai_response Map.empty (answering ''ok'') id 3 ''hi'' initial_world"
    using a [THEN conjunct2, THEN conjunct2, THEN conjunct2, THEN conjunct1, THEN spec,
        of "\<lambda>req. if temperature req = 7 / 10 then answering ''ok'' req else Raises IndexError"]
    by simp
  moreover have "DEFAULT_MODEL [''OPENROUTER_MODEL'' \<mapsto> ''openai/gpt-4o''] = ''openai/gpt-4o''"
    using b [THEN conjunct2, THEN conjunct2, THEN conjunct2, THEN conjunct2] by simp
  ultimately show ?thesis by (intro conjI)
qed

section \<open>Reset and messages without text\<close>

text \<open>
  Claim C7. \<open>cmd_start\<close> empties the history of the sender when the store holds one
  and leaves the store as it is when it holds none (no entry is created); the histories
  of other users and the request trace are untouched. After it, appending one entry to
  the sender's history gives a history of exactly that one entry.
\<close>

theorem reset_clears_history:
  "(user_messages w (from_user_id m) \<noteq> None \<longrightarrow>
      user_messages (cmd_start m w) (from_user_id m) = Some [])
   \<and> (user_messages w (from_user_id m) = None \<longrightarrow>
      user_messages (cmd_start m w) = user_messages w)
   \<and> (\<forall>uid. uid \<noteq> from_user_id m \<longrightarrow> user_messages (cmd_start m w) uid = user_messages w uid)
   \<and> requests (cmd_start m w) = requests w
   \<and> fst (getitem (user_messages (cmd_start m w)) (from_user_id m)) = []
   \<and> append_entry (from_user_id m) e (user_messages (cmd_start m w)) (from_user_id m) = Some [e]
   \<and> length (fst (getitem (append_entry (from_user_id m) e (user_messages (cmd_start m w)))
         (from_user_id m))) = 1"
  by (cases "user_messages w (from_user_id m)")
    (simp_all add: cmd_start_def contains_def getitem_def deque_clear_def append_entry_def
      deque_append_def maxlen_def Let_def)

theorem reset_clears_history_witness:
  "user_messages (cmd_start \<lparr>from_user_id = 8, chat_id = 80, msg_text = Some ''/start''\<rparr>
      (initial_world\<lparr>user_messages := [8 \<mapsto> [\<lparr>role = ''user'', content = Some ''a''\<rparr>]]\<rparr>)) 8 =
     Some []
   \<and> user_messages (cmd_start \<lparr>from_user_id = 9, chat_id = 90, msg_text = Some ''/start''\<rparr>
      (initial_world\<lparr>user_messages := [8 \<mapsto> [\<lparr>role = ''user'', content = Some ''a''\<rparr>]]\<rparr>)) =
     [8 \<mapsto> [\<lparr>role = ''user'', content = Some ''a''\<rparr>]]
   \<and> append_entry 8 \<lparr>role = ''user'', content = Some ''b''\<rparr>
       (user_messages (cmd_start \<lparr>from_user_id = 8, chat_id = 80, msg_text = Some ''/start''\<rparr>
          (initial_world\<lparr>user_messages := [8 \<mapsto> [\<lparr>role = ''user'', content = Some ''a''\<rparr>]]\<rparr>))) 8 =
     Some [\<lparr>role = ''user'', content = Some ''b''\<rparr>]"
  using reset_clears_history
      [of "initial_world\<lparr>user_messages := [8 \<mapsto> [\<lparr>role = ''user'', content = Some ''a''\<rparr>]]\<rparr>"
        "\<lparr>from_user_id = 8, chat_id = 80, msg_text = Some ''/start''\<rparr>"
        "\<lparr>role = ''user'', content = Some ''b''\<rparr>"]
    reset_clears_history
      [of "initial_world\<lparr>user_messages := [8 \<mapsto> [\<lparr>role = ''user'', content = Some ''a''\<rparr>]]\<rparr>"
        "\<lparr>from_user_id = 9, chat_id = 90, msg_text = Some ''/start''\<rparr>"
        "\<lparr>role = ''user'', content = Some ''b''\<rparr>"]
  by simp

text \<open>
  Claim C8. For a message whose text is absent or empty, \<open>handle_text_message\<close>
  answers with the fixed prompt and changes nothing else: the store, the trace of
  provider requests and the printed lines are as before, whatever the provider would
  do and whatever else is ready to run, so \<open>get_ai_response\<close> has not run.
\<close>

theorem no_text_rejected:
  assumes "msg_text m = None \<or> msg_text m = Some []"
  shows "handle_text_message environ create during_typing during_call m w =
           (Inr (), w\<lparr>outbox := outbox w @ [Answer (chat_id m) text_required_prompt]\<rparr>)
       \<and> user_messages (snd (handle_text_message environ create during_typing during_call m w)) =
           user_messages w
       \<and> requests (snd (handle_text_message environ create during_typing during_call m w)) =
           requests w
       \<and> stdout (snd (handle_text_message environ create during_typing during_call m w)) =
           stdout w"
  using assms by (auto simp add: handle_text_message_def)

theorem no_text_rejected_witness:
  "handle_text_message Map.empty (answering ''ok'') id id
      \<lparr>from_user_id = 8, chat_id = 80, msg_text = Some []\<rparr>
      (initial_world\<lparr>user_messages := [8 \<mapsto> [\<lparr>role = ''user'', content = Some ''a''\<rparr>]]\<rparr>) =
     (Inr (), \<lparr>user_messages = [8 \<mapsto> [\<lparr>role = ''user'', content = Some ''a''\<rparr>]], requests = [],
               stdout = [], outbox = [Answer 80 text_required_prompt]\<rparr>)
   \<and> handle_text_message Map.empty (answering ''ok'') id id
      \<lparr>from_user_id = 8, chat_id = 80, msg_text = None\<rparr> initial_world =
     (Inr (), \<lparr>user_messages = Map.empty, requests = [],
               stdout = [], outbox = [Answer 80 text_required_prompt]\<rparr>)"
proof -
  have h1: "msg_text \<lparr>from_user_id = 8, chat_id = 80, msg_text = Some []\<rparr> = None
      \<or> msg_text \<lparr>from_user_id = 8, chat_id = 80, msg_text = Some []\<rparr> = Some []"
    by simp
  have h2: "msg_text \<lparr>from_user_id = 8, chat_id = 80, msg_text = None\<rparr> = None
      \<or> msg_text \<lparr>from_user_id = 8, chat_id = 80, msg_text = None\<rparr> = Some []"
    by simp
  from no_text_rejected [OF h1, of Map.empty "answering ''ok''" id id
        "initial_world\<lparr>user_messages := [8 \<mapsto> [\<lparr>role = ''user'', content = Some ''a''\<rparr>]]\<rparr>"]
      no_text_rejected [OF h2, of Map.empty "answering ''ok''" id id initial_world]
  show ?thesis by (simp add: initial_world_def)
qed

section \<open>What the store can hold\<close>

text \<open>
  Every segment keeps \<open>world_inv\<close>, so it holds in every state reached from the
  initial one, however the handlers interleave. A text handler is the composition of
  its three segments with whatever ran at its two suspension points.
\<close>

lemma set_deque_append: "set (deque_append d x) \<subseteq> insert x (set d)"
  by (cases d) (auto simp add: deque_append_alt dest: list.set_sel(2))

lemma store_inv_empty: "store_inv Map.empty"
  by (simp add: store_inv_def)

lemma store_inv_getitem:
  "store_inv um \<Longrightarrow>
   length (fst (getitem um uid)) \<le> 10 \<and> (\<forall>e \<in> set (fst (getitem um uid)). stored_entry e)"
  by (cases "um uid") (simp_all add: getitem_fst store_inv_def)

lemma store_inv_append_entry:
  assumes "store_inv um" and "stored_entry e"
  shows "store_inv (append_entry uid e um)"
proof -
  let ?h = "fst (getitem um uid)"
  have len: "length (deque_append ?h e) \<le> 10"
    using store_inv_getitem [OF assms(1)] by (simp add: deque_append_length)
  have "\<forall>x \<in> set (deque_append ?h e). stored_entry x"
    using store_inv_getitem [OF assms(1), of uid] assms(2) set_deque_append [of ?h e] by auto
  with len assms(1) show ?thesis
    by (simp add: store_inv_def append_entry_upd)
qed

lemma store_inv_format:
  "store_inv um \<Longrightarrow> store_inv (snd (format_messages_for_api uid t um))"
  using store_inv_append_entry [of um "\<lparr>role = ''user'', content = Some t\<rparr>" uid]
  by (simp add: format_messages_for_api_eq append_entry_upd stored_entry_def)

lemma requests_inv_format:
  assumes "store_inv um"
  shows "\<exists>h. fst (format_messages_for_api uid t um) = system_message # h
           \<and> (\<forall>e \<in> set h. stored_entry e)"
proof -
  let ?h = "deque_append (fst (getitem um uid)) \<lparr>role = ''user'', content = Some t\<rparr>"
  have "snd (format_messages_for_api uid t um) uid = Some ?h"
    by (simp add: format_messages_for_api_eq)
  with store_inv_format [OF assms, of uid t] have "\<forall>e \<in> set ?h. stored_entry e"
    unfolding store_inv_def by blast
  then show ?thesis
    by (simp add: format_messages_for_api_eq)
qed

lemma world_inv_before_await:
  assumes "world_inv w"
  shows "world_inv (snd (before_await environ uid t w))"
  using assms requests_inv_format [of "user_messages w" uid t]
  by (simp add: before_await_eq world_inv_def store_inv_format requests_inv_def)

lemma world_inv_after_await:
  assumes "world_inv w"
  shows "world_inv (snd (except_Exception (after_await uid result w)))"
proof (cases result)
  case (Raises e)
  then show ?thesis using assms
    by (simp add: after_await_def except_Exception_def world_inv_def Let_def)
next
  case (Returns response)
  show ?thesis
  proof (cases "choices response")
    case Nil
    with Returns show ?thesis using assms
      by (simp add: after_await_def except_Exception_def world_inv_def Let_def)
  next
    case (Cons c cs)
    with Returns show ?thesis using assms
      by (simp add: after_await_def except_Exception_def world_inv_def Let_def
          store_inv_append_entry stored_entry_def)
  qed
qed

lemma world_inv_answer: "world_inv w \<Longrightarrow> world_inv (snd (answer m payload w))"
  by (cases payload) (simp_all add: answer_def world_inv_def)

lemma world_inv_cmd_start: "world_inv w \<Longrightarrow> world_inv (cmd_start m w)"
  by (cases "user_messages w (from_user_id m)")
    (simp_all add: world_inv_def cmd_start_def contains_def getitem_def deque_clear_def
      store_inv_def Let_def)

lemma world_inv_cmd_help: "world_inv w \<Longrightarrow> world_inv (cmd_help m w)"
  by (simp add: world_inv_def cmd_help_def)

lemma world_inv_outbox: "world_inv (w\<lparr>outbox := ob\<rparr>) = world_inv w"
  by (simp add: world_inv_def)

lemma world_inv_run_segment:
  assumes "world_inv w"
  shows "world_inv (run_segment environ s w)"
proof (cases s)
  case (Start m)
  then show ?thesis using assms by (simp add: world_inv_cmd_start)
next
  case (Help m)
  then show ?thesis using assms by (simp add: world_inv_cmd_help)
next
  case (TextArrives m)
  then show ?thesis using assms
    by (simp add: world_inv_outbox split: option.split)
next
  case (CallProvider m)
  then show ?thesis using assms
    by (simp add: world_inv_before_await split: option.split)
next
  case (ProviderDone m result)
  obtain v w2 where r: "except_Exception (after_await (from_user_id m) result w) = (v, w2)"
    by (cases "except_Exception (after_await (from_user_id m) result w)")
  with world_inv_after_await [OF assms, of "from_user_id m" result] have "world_inv w2"
    by simp
  with ProviderDone r show ?thesis
    by (cases v) (simp_all add: world_inv_answer)
qed

lemma world_inv_run_segments: "world_inv w \<Longrightarrow> world_inv (run_segments environ ss w)"
  by (induction ss arbitrary: w) (simp_all add: world_inv_run_segment)

lemma world_inv_initial: "world_inv initial_world"
  by (simp add: world_inv_def initial_world_def store_inv_def requests_inv_def)

lemma user_not_system: "stored_entry e \<Longrightarrow> role e \<noteq> ''system''"
  by (auto simp add: stored_entry_def)

lemma handle_text_message_no_text_segment:
  assumes "msg_text m = None \<or> msg_text m = Some []"
  shows "snd (handle_text_message environ create during_typing during_call m w) =
     run_segment environ (TextArrives m) w"
  using assms by (auto simp add: handle_text_message_def)

lemma handle_text_message_segments:
  assumes "msg_text m = Some s" and "s \<noteq> []"
  shows "snd (handle_text_message environ create during_typing during_call m w) =
     run_segment environ
       (ProviderDone m
          (create (fst (before_await environ (from_user_id m) s
                     (during_typing (run_segment environ (TextArrives m) w))))))
       (during_call
          (run_segment environ (CallProvider m)
             (during_typing (run_segment environ (TextArrives m) w))))"
  using assms
  by (simp add: handle_text_message_def get_ai_response_def try_body_def Let_def
      case_prod_beta split: sum.split)

text \<open>
  Claim C1. In every state the bot reaches from its start, however the segments of its
  handlers interleave, each stored history holds at most 10 entries. Appending any
  sequence of entries to a history of at most 10 entries gives a history that still
  holds at most 10: it consists of the last 10 entries of the old contents followed by
  the appended ones, so the entries dropped are the oldest ones. In particular,
  appending to a history of exactly 10 entries removes its first (oldest) entry and
  puts the new one at the end.
\<close>

theorem history_bounded_fifo:
  "(\<forall>uid h. user_messages (run_segments environ ss initial_world) uid = Some h \<longrightarrow>
      length h \<le> 10)
   \<and> (length (fst (getitem um uid)) \<le> 10 \<longrightarrow>
        length (fst (getitem (fold (append_entry uid) es um) uid)) \<le> 10
      \<and> fst (getitem (fold (append_entry uid) es um) uid) =
          drop (length (fst (getitem um uid) @ es) - 10) (fst (getitem um uid) @ es)
      \<and> (length (fst (getitem um uid)) = 10 \<longrightarrow>
           fst (getitem (append_entry uid e um) uid) = tl (fst (getitem um uid)) @ [e]))"
proof (intro conjI impI)
  have "world_inv (run_segments environ ss initial_world)"
    by (simp add: world_inv_run_segments world_inv_initial)
  then show "\<forall>uid h. user_messages (run_segments environ ss initial_world) uid = Some h \<longrightarrow>
      length h \<le> 10"
    unfolding world_inv_def store_inv_def by blast
next
  assume len: "length (fst (getitem um uid)) \<le> 10"
  then show fifo: "fst (getitem (fold (append_entry uid) es um) uid) =
      drop (length (fst (getitem um uid) @ es) - 10) (fst (getitem um uid) @ es)"
    by (rule fold_append_entry_history)
  show "length (fst (getitem (fold (append_entry uid) es um) uid)) \<le> 10"
    unfolding fifo by simp
next
  assume "length (fst (getitem um uid)) = 10"
  then show "fst (getitem (append_entry uid e um) uid) = tl (fst (getitem um uid)) @ [e]"
    by (simp add: append_entry_upd getitem_fst deque_append_full)
qed

theorem history_bounded_fifo_witness:
  "length (fst (getitem [7 \<mapsto> map (\<lambda>c. \<lparr>role = ''user'', content = Some [c]\<rparr>) ''abcdefghij''] 7)) = 10
   \<and> fst (getitem (fold (append_entry 7)
              [\<lparr>role = ''assistant'', content = Some ''k''\<rparr>, \<lparr>role = ''user'', content = Some ''l''\<rparr>]
              [7 \<mapsto> map (\<lambda>c. \<lparr>role = ''user'', content = Some [c]\<rparr>) ''abcdefghij'']) 7) =
       map (\<lambda>c. \<lparr>role = ''user'', content = Some [c]\<rparr>) ''cdefghij'' @
         [\<lparr>role = ''assistant'', content = Some ''k''\<rparr>, \<lparr>role = ''user'', content = Some ''l''\<rparr>]
   \<and> fst (getitem (append_entry 7 \<lparr>role = ''assistant'', content = Some ''k''\<rparr>
              [7 \<mapsto> map (\<lambda>c. \<lparr>role = ''user'', content = Some [c]\<rparr>) ''abcdefghij'']) 7) =
       map (\<lambda>c. \<lparr>role = ''user'', content = Some [c]\<rparr>) ''bcdefghij'' @
         [\<lparr>role = ''assistant'', content = Some ''k''\<rparr>]
   \<and> length (the (user_messages (run_segments Map.empty
         [TextArrives \<lparr>from_user_id = 7, chat_id = 7, msg_text = Some ''A''\<rparr>,
          CallProvider \<lparr>from_user_id = 7, chat_id = 7, msg_text = Some ''A''\<rparr>,
          TextArrives \<lparr>from_user_id = 7, chat_id = 7, msg_text = Some ''B''\<rparr>,
          CallProvider \<lparr>from_user_id = 7, chat_id = 7, msg_text = Some ''B''\<rparr>,
          ProviderDone \<lparr>from_user_id = 7, chat_id = 7, msg_text = Some ''A''\<rparr>
            (Returns \<lparr>choices = [\<lparr>message = \<lparr>msg_content = Some ''RA''\<rparr>\<rparr>]\<rparr>)]
         initial_world) 7)) \<le> 10"
proof -
  let ?um = "[7 \<mapsto> map (\<lambda>c. \<lparr>role = ''user'', content = Some [c]\<rparr>) ''abcdefghij'']"
  let ?ss = "[TextArrives \<lparr>from_user_id = 7, chat_id = 7, msg_text = Some ''A''\<rparr>,
          CallProvider \<lparr>from_user_id = 7, chat_id = 7, msg_text = Some ''A''\<rparr>,
          TextArrives \<lparr>from_user_id = 7, chat_id = 7, msg_text = Some ''B''\<rparr>,
          CallProvider \<lparr>from_user_id = 7, chat_id = 7, msg_text = Some ''B''\<rparr>,
          ProviderDone \<lparr>from_user_id = 7, chat_id = 7, msg_text = Some ''A''\<rparr>
            (Returns \<lparr>choices = [\<lparr>message = \<lparr>msg_content = Some ''RA''\<rparr>\<rparr>]\<rparr>)]"
  note inst = history_bounded_fifo [of Map.empty ?ss ?um 7
      "[\<lparr>role = ''assistant'', content = Some ''k''\<rparr>, \<lparr>role = ''user'', content = Some ''l''\<rparr>]"
      "\<lparr>role = ''assistant'', content = Some ''k''\<rparr>"]
  have h: "length (fst (getitem ?um 7)) = 10"
    by (simp add: getitem_def)
  have ev: "user_messages (run_segments Map.empty ?ss initial_world) 7 =
      Some [\<lparr>role = ''user'', content = Some ''A''\<rparr>, \<lparr>role = ''user'', content = Some ''B''\<rparr>,
            \<lparr>role = ''assistant'', content = Some ''RA''\<rparr>]"
    by (simp add: before_await_eq after_await_def except_Exception_def answer_def
        format_messages_for_api_eq append_entry_upd getitem_def deque_append_alt
        initial_world_def Let_def)
  have "length (the (user_messages (run_segments Map.empty ?ss initial_world) 7)) \<le> 10"
    unfolding ev option.sel
    by (rule inst [THEN conjunct1, THEN spec, THEN spec, THEN mp, OF ev])
  moreover from inst [THEN conjunct2] h
  have "fst (getitem (fold (append_entry 7)
              [\<lparr>role = ''assistant'', content = Some ''k''\<rparr>, \<lparr>role = ''user'', content = Some ''l''\<rparr>] ?um) 7) =
       map (\<lambda>c. \<lparr>role = ''user'', content = Some [c]\<rparr>) ''cdefghij'' @
         [\<lparr>role = ''assistant'', content = Some ''k''\<rparr>, \<lparr>role = ''user'', content = Some ''l''\<rparr>]
     \<and> fst (getitem (append_entry 7 \<lparr>role = ''assistant'', content = Some ''k''\<rparr> ?um) 7) =
       map (\<lambda>c. \<lparr>role = ''user'', content = Some [c]\<rparr>) ''bcdefghij'' @
         [\<lparr>role = ''assistant'', content = Some ''k''\<rparr>]"
    by (simp add: getitem_def)
  ultimately show ?thesis using h by simp
qed

text \<open>
  Claim C10. In every state the bot reaches from its start, however the segments of
  its handlers interleave, every entry of every stored history has role \<open>user\<close> or
  \<open>assistant\<close> and none has role \<open>system\<close>; the system entry occurs at the head of
  each request issued to the provider, followed by stored turns.
\<close>

theorem stored_roles_never_system:
  "(\<forall>uid h. user_messages (run_segments environ ss initial_world) uid = Some h \<longrightarrow>
      (\<forall>e \<in> set h. (role e = ''user'' \<or> role e = ''assistant'') \<and> role e \<noteq> ''system''))
   \<and> (\<forall>req \<in> set (requests (run_segments environ ss initial_world)).
        \<exists>h. messages req = system_message # h
           \<and> (\<forall>e \<in> set h. role e = ''user'' \<or> role e = ''assistant''))"
proof -
  have inv: "world_inv (run_segments environ ss initial_world)"
    by (simp add: world_inv_run_segments world_inv_initial)
  then have "\<forall>uid h. user_messages (run_segments environ ss initial_world) uid = Some h \<longrightarrow>
      (\<forall>e \<in> set h. stored_entry e)"
    unfolding world_inv_def store_inv_def by blast
  then have "\<forall>uid h. user_messages (run_segments environ ss initial_world) uid = Some h \<longrightarrow>
      (\<forall>e \<in> set h. (role e = ''user'' \<or> role e = ''assistant'') \<and> role e \<noteq> ''system'')"
    using user_not_system unfolding stored_entry_def by blast
  moreover from inv have "\<forall>req \<in> set (requests (run_segments environ ss initial_world)).
        \<exists>h. messages req = system_message # h
           \<and> (\<forall>e \<in> set h. role e = ''user'' \<or> role e = ''assistant'')"
    unfolding world_inv_def requests_inv_def stored_entry_def by blast
  ultimately show ?thesis by (rule conjI)
qed

theorem stored_roles_never_system_witness:
  "user_messages (run_segments Map.empty
        [TextArrives \<lparr>from_user_id = 1, chat_id = 2, msg_text = Some ''A''\<rparr>,
         CallProvider \<lparr>from_user_id = 1, chat_id = 2, msg_text = Some ''A''\<rparr>,
         Help \<lparr>from_user_id = 1, chat_id = 2, msg_text = Some ''/help''\<rparr>,
         TextArrives \<lparr>from_user_id = 1, chat_id = 2, msg_text = Some ''B''\<rparr>,
         CallProvider \<lparr>from_user_id = 1, chat_id = 2, msg_text = Some ''B''\<rparr>,
         ProviderDone \<lparr>from_user_id = 1, chat_id = 2, msg_text = Some ''A''\<rparr>
           (Returns \<lparr>choices = [\<lparr>message = \<lparr>msg_content = None\<rparr>\<rparr>]\<rparr>),
         ProviderDone \<lparr>from_user_id = 1, chat_id = 2, msg_text = Some ''B''\<rparr>
           (Raises (ProviderError ''down''))]
        initial_world) 1 =
      Some [\<lparr>role = ''user'', content = Some ''A''\<rparr>, \<lparr>role = ''user'', content = Some ''B''\<rparr>,
            \<lparr>role = ''assistant'', content = None\<rparr>]
   \<and> role \<lparr>role = ''assistant'', content = None\<rparr> \<noteq> ''system''
   \<and> (\<exists>h. messages (last (requests (run_segments Map.empty
        [TextArrives \<lparr>from_user_id = 1, chat_id = 2, msg_text = Some ''A''\<rparr>,
         CallProvider \<lparr>from_user_id = 1, chat_id = 2, msg_text = Some ''A''\<rparr>,
         Help \<lparr>from_user_id = 1, chat_id = 2, msg_text = Some ''/help''\<rparr>,
         TextArrives \<lparr>from_user_id = 1, chat_id = 2, msg_text = Some ''B''\<rparr>,
         CallProvider \<lparr>from_user_id = 1, chat_id = 2, msg_text = Some ''B''\<rparr>,
         ProviderDone \<lparr>from_user_id = 1, chat_id = 2, msg_text = Some ''A''\<rparr>
           (Returns \<lparr>choices = [\<lparr>message = \<lparr>msg_content = None\<rparr>\<rparr>]\<rparr>),
         ProviderDone \<lparr>from_user_id = 1, chat_id = 2, msg_text = Some ''B''\<rparr>
           (Raises (ProviderError ''down''))]
        initial_world))) = system_message # h)"
proof -
  let ?ss = "[TextArrives \<lparr>from_user_id = 1, chat_id = 2, msg_text = Some ''A''\<rparr>,
         CallProvider \<lparr>from_user_id = 1, chat_id = 2, msg_text = Some ''A''\<rparr>,
         Help \<lparr>from_user_id = 1, chat_id = 2, msg_text = Some ''/help''\<rparr>,
         TextArrives \<lparr>from_user_id = 1, chat_id = 2, msg_text = Some ''B''\<rparr>,
         CallProvider \<lparr>from_user_id = 1, chat_id = 2, msg_text = Some ''B''\<rparr>,
         ProviderDone \<lparr>from_user_id = 1, chat_id = 2, msg_text = Some ''A''\<rparr>
           (Returns \<lparr>choices = [\<lparr>message = \<lparr>msg_content = None\<rparr>\<rparr>]\<rparr>),
         ProviderDone \<lparr>from_user_id = 1, chat_id = 2, msg_text = Some ''B''\<rparr>
           (Raises (ProviderError ''down''))]"
  let ?h = "[\<lparr>role = ''user'', content = Some ''A''\<rparr>, \<lparr>role = ''user'', content = Some ''B''\<rparr>,
            \<lparr>role = ''assistant'', content = None\<rparr>]"
  note inv = stored_roles_never_system [of Map.empty ?ss]
  have ev: "user_messages (run_segments Map.empty ?ss initial_world) 1 = Some ?h"
    by (simp add: before_await_eq after_await_def except_Exception_def is_Exception_def
        answer_def cmd_help_def format_messages_for_api_eq append_entry_upd getitem_def
        deque_append_alt initial_world_def Let_def)
  from inv [THEN conjunct1, THEN spec, THEN spec, THEN mp, OF ev]
  have "role \<lparr>role = ''assistant'', content = None\<rparr> \<noteq> ''system''"
    by simp
  moreover have "requests (run_segments Map.empty ?ss initial_world) \<noteq> []"
    by (simp add: before_await_eq after_await_def except_Exception_def is_Exception_def
        answer_def cmd_help_def Let_def)
  then have "last (requests (run_segments Map.empty ?ss initial_world))
      \<in> set (requests (run_segments Map.empty ?ss initial_world))"
    by (rule last_in_set)
  with inv [THEN conjunct2]
  have "\<exists>h. messages (last (requests (run_segments Map.empty ?ss initial_world))) =
      system_message # h"
    by blast
  ultimately show ?thesis using ev by (intro conjI)
qed

section \<open>A conversation of eleven messages\<close>

text \<open>
  A run of answered texts, each handled to its end before the next arrives, acts on the
  store as the sequence of appends of its user and assistant entries.
\<close>

lemma handle_text_message_answering:
  assumes "t \<noteq> []"
  shows "user_messages (snd (handle_text_message environ (answering r) id id
             \<lparr>from_user_id = uid, chat_id = chat, msg_text = Some t\<rparr> w)) =
         append_entry uid \<lparr>role = ''assistant'', content = Some r\<rparr>
           (append_entry uid \<lparr>role = ''user'', content = Some t\<rparr> (user_messages w))"
  using assms
  by (simp add: handle_text_message_def get_ai_response_eq before_await_eq after_await_def
      except_Exception_def answer_def answering_def format_messages_for_api_eq
      append_entry_upd Let_def)

lemma converse_store:
  assumes "\<forall>(t, r) \<in> set trs. t \<noteq> []"
  shows "user_messages (converse environ uid chat trs w) =
     fold (append_entry uid)
       (concat (map (\<lambda>(t, r). [\<lparr>role = ''user'', content = Some t\<rparr>,
                                 \<lparr>role = ''assistant'', content = Some r\<rparr>]) trs))
       (user_messages w)"
  using assms
proof (induction trs arbitrary: w)
  case Nil
  then show ?case by simp
next
  case (Cons p trs)
  obtain t r where p: "p = (t, r)" by (cases p)
  with Cons.prems have "t \<noteq> []" by simp
  with Cons p show ?case
    by (simp add: handle_text_message_answering)
qed

lemma fold_append_entry_defined:
  "um uid \<noteq> None \<Longrightarrow> fold (append_entry uid) es um uid \<noteq> None"
  by (induction es arbitrary: um) (simp_all add: append_entry_upd)

lemma fold_append_entry_created:
  "es \<noteq> [] \<Longrightarrow> fold (append_entry uid) es um uid \<noteq> None"
  by (cases es) (simp_all add: fold_append_entry_defined append_entry_upd)

lemma drop_pairs:
  "drop (2 * k) (concat (map (\<lambda>(t, r). [f t, g r]) trs)) =
     concat (map (\<lambda>(t, r). [f t, g r]) (drop k trs))"
proof (induction trs arbitrary: k)
  case Nil
  then show ?case by simp
next
  case (Cons p trs)
  then show ?case by (cases k; cases p) simp_all
qed

lemma length_pairs: "length (concat (map (\<lambda>(t, r). [f t, g r]) trs)) = 2 * length trs"
  by (induction trs) (auto split: prod.split)

text \<open>
  Claim C6. A user whose history holds at most 10 entries sends 11 texts one after the
  other, each answered by the provider. The history then consists of exactly 10
  entries: the user and assistant entries of the last five exchanges, in order. The six
  oldest exchanges, the first one among them, have been dropped.
\<close>

theorem eleven_messages_keep_last_five_pairs:
  assumes "length trs = 11"
    and "\<forall>(t, r) \<in> set trs. t \<noteq> []"
    and "length (fst (getitem (user_messages w) uid)) \<le> 10"
  shows "user_messages (converse environ uid chat trs w) uid =
           Some (concat (map (\<lambda>(t, r). [\<lparr>role = ''user'', content = Some t\<rparr>,
                                          \<lparr>role = ''assistant'', content = Some r\<rparr>])
                   (drop 6 trs)))
       \<and> length (fst (getitem (user_messages (converse environ uid chat trs w)) uid)) = 10"
proof -
  let ?pair = "\<lambda>(t, r). [\<lparr>role = ''user'', content = Some t\<rparr>,
                          \<lparr>role = ''assistant'', content = Some r\<rparr>]"
  let ?es = "concat (map ?pair trs)"
  let ?h = "fst (getitem (user_messages w) uid)"
  let ?um = "user_messages (converse environ uid chat trs w)"
  have len: "length ?es = 22"
    using assms(1) by (simp add: length_pairs)
  have um: "?um = fold (append_entry uid) ?es (user_messages w)"
    using assms(2) by (rule converse_store)
  have "fst (getitem ?um uid) = drop (length (?h @ ?es) - 10) (?h @ ?es)"
    unfolding um using assms(3) by (rule fold_append_entry_history)
  also have "\<dots> = drop (2 * 6) ?es"
    using len by simp
  also have "\<dots> = concat (map ?pair (drop 6 trs))"
    by (rule drop_pairs)
  finally have h: "fst (getitem ?um uid) = concat (map ?pair (drop 6 trs))" .
  have "length ?es \<noteq> 0"
    by (simp add: len)
  then have "?es \<noteq> []"
    by (simp only: length_0_conv not_False_eq_True)
  then have "?um uid \<noteq> None"
    unfolding um by (rule fold_append_entry_created)
  with h have "?um uid = Some (concat (map ?pair (drop 6 trs)))"
    by (auto simp add: getitem_fst)
  moreover have "length (fst (getitem ?um uid)) = 10"
    unfolding h using assms(1) by (simp add: length_pairs)
  ultimately show ?thesis by (rule conjI)
qed

theorem eleven_messages_keep_last_five_pairs_witness:
  "length [(''m1'', ''r1''), (''m2'', ''r2''), (''m3'', ''r3''), (''m4'', ''r4''), (''m5'', ''r5''),
           (''m6'', ''r6''), (''m7'', ''r7''), (''m8'', ''r8''), (''m9'', ''r9''),
           (''m10'', ''r10''), (''m11'', ''r11'')] = 11
   \<and> user_messages (converse Map.empty 1 2
          [(''m1'', ''r1''), (''m2'', ''r2''), (''m3'', ''r3''), (''m4'', ''r4''), (''m5'', ''r5''),
           (''m6'', ''r6''), (''m7'', ''r7''), (''m8'', ''r8''), (''m9'', ''r9''),
           (''m10'', ''r10''), (''m11'', ''r11'')] initial_world) 1 =
       Some [\<lparr>role = ''user'', content = Some ''m7''\<rparr>, \<lparr>role = ''assistant'', content = Some ''r7''\<rparr>,
             \<lparr>role = ''user'', content = Some ''m8''\<rparr>, \<lparr>role = ''assistant'', content = Some ''r8''\<rparr>,
             \<lparr>role = ''user'', content = Some ''m9''\<rparr>, \<lparr>role = ''assistant'', content = Some ''r9''\<rparr>,
             \<lparr>role = ''user'', content = Some ''m10''\<rparr>, \<lparr>role = ''assistant'', content = Some ''r10''\<rparr>,
             \<lparr>role = ''user'', content = Some ''m11''\<rparr>, \<lparr>role = ''assistant'', content = Some ''r11''\<rparr>]"
proof -
  let ?trs = "[(''m1'', ''r1''), (''m2'', ''r2''), (''m3'', ''r3''), (''m4'', ''r4''), (''m5'', ''r5''),
           (''m6'', ''r6''), (''m7'', ''r7''), (''m8'', ''r8''), (''m9'', ''r9''),
           (''m10'', ''r10''), (''m11'', ''r11'')]"
  have h1: "length ?trs = 11"
    by simp
  have h2: "\<forall>(t, r) \<in> set ?trs. t \<noteq> []"
    by simp
  have h3: "length (fst (getitem (user_messages initial_world) 1)) \<le> 10"
    by (simp add: getitem_def initial_world_def)
  from eleven_messages_keep_last_five_pairs [OF h1 h2 h3, of Map.empty 2]
  show ?thesis
    by simp
qed

end
